theory Spec2Isabelle
  imports
    Complex_Main
    "HOL-Library.Multiset"
    "HOL-Library.Sublist"
    "HOL-Library.Char_ord"
    "HOL-Library.List_Lexorder"
begin

section \<open>Values and errors\<close>

text \<open>
  Python floats where the source inspects them (\<open>np.isfinite\<close> in
  \<open>_invert_prediction\<close>): a finite value or one of the three IEEE special values.
  Finite values are idealised as reals: rounding, overflow to infinity and the sign of
  zero are not modelled.
\<close>

datatype pyfloat = Finite real | PosInf | NegInf | NaN

fun isfinite :: "pyfloat \<Rightarrow> bool" where
  "isfinite (Finite _) = True"
| "isfinite _ = False"

fun fadd :: "pyfloat \<Rightarrow> pyfloat \<Rightarrow> pyfloat" where
  "fadd (Finite a) (Finite b) = Finite (a + b)"
| "fadd NaN _ = NaN"
| "fadd _ NaN = NaN"
| "fadd PosInf NegInf = NaN"
| "fadd NegInf PosInf = NaN"
| "fadd PosInf _ = PosInf"
| "fadd _ PosInf = PosInf"
| "fadd NegInf _ = NegInf"
| "fadd _ NegInf = NegInf"

fun fneg :: "pyfloat \<Rightarrow> pyfloat" where
  "fneg (Finite a) = Finite (- a)"
| "fneg PosInf = NegInf"
| "fneg NegInf = PosInf"
| "fneg NaN = NaN"

fun finf_times :: "real \<Rightarrow> pyfloat" where
  "finf_times a = (if 0 < a then PosInf else if a < 0 then NegInf else NaN)"

fun fmul :: "pyfloat \<Rightarrow> pyfloat \<Rightarrow> pyfloat" where
  "fmul (Finite a) (Finite b) = Finite (a * b)"
| "fmul NaN _ = NaN"
| "fmul _ NaN = NaN"
| "fmul PosInf (Finite b) = finf_times b"
| "fmul (Finite a) PosInf = finf_times a"
| "fmul NegInf (Finite b) = fneg (finf_times b)"
| "fmul (Finite a) NegInf = fneg (finf_times a)"
| "fmul PosInf PosInf = PosInf"
| "fmul NegInf NegInf = PosInf"
| "fmul PosInf NegInf = NegInf"
| "fmul NegInf PosInf = NegInf"

fun fexp :: "pyfloat \<Rightarrow> pyfloat" where
  "fexp (Finite a) = Finite (exp a)"
| "fexp PosInf = PosInf"
| "fexp NegInf = Finite 0"
| "fexp NaN = NaN"

text \<open>
  Exceptions are values. \<open>HTTPException\<close> carries the status code and the detail
  string of the source; the other constructors are the Python exceptions that the
  source raises itself or lets escape from a library call.
\<close>

datatype error =
    HTTPException nat string
  | ValueError string
  | RuntimeError string
  | TypeError string
  | AttributeError string
  | IndexError
  | KeyError
  | RequestException string

section \<open>Timestamps and the pandas routines the source calls\<close>

text \<open>
  A parsed timestamp, as \<open>pandas.Timestamp\<close> exposes it: the calendar fields of its
  wall clock and the UTC offset in seconds, \<open>None\<close> for a naive timestamp.
\<close>

record timestamp =
  ts_year :: int
  ts_month :: int
  ts_day :: int
  ts_hour :: int
  ts_minute :: int
  ts_second :: int
  ts_nanosecond :: int
  utcoffset :: "int option"

definition is_leap :: "int \<Rightarrow> bool" where
  "is_leap y \<longleftrightarrow> y mod 4 = 0 \<and> (y mod 100 \<noteq> 0 \<or> y mod 400 = 0)"

definition days_in_month :: "int \<Rightarrow> int \<Rightarrow> int" where
  "days_in_month y m =
     (if m = 2 then (if is_leap y then 29 else 28)
      else if m \<in> {4, 6, 9, 11} then 30 else 31)"

definition valid_timestamp :: "timestamp \<Rightarrow> bool" where
  "valid_timestamp t \<longleftrightarrow>
     1 \<le> ts_month t \<and> ts_month t \<le> 12 \<and>
     1 \<le> ts_day t \<and> ts_day t \<le> days_in_month (ts_year t) (ts_month t) \<and>
     0 \<le> ts_hour t \<and> ts_hour t < 24 \<and>
     0 \<le> ts_minute t \<and> ts_minute t < 60 \<and>
     0 \<le> ts_second t \<and> ts_second t < 60 \<and>
     0 \<le> ts_nanosecond t \<and> ts_nanosecond t < 1000000000"

text \<open>Days since 1970-01-01 of a date of the proleptic Gregorian calendar.\<close>

definition days_from_civil :: "int \<Rightarrow> int \<Rightarrow> int \<Rightarrow> int" where
  "days_from_civil y m d =
     (let y' = (if m \<le> 2 then y - 1 else y);
          era = y' div 400;
          yoe = y' - era * 400;
          doy = (153 * (if m > 2 then m - 3 else m + 9) + 2) div 5 + d - 1;
          doe = yoe * 365 + yoe div 4 - yoe div 100 + doy
      in era * 146097 + doe - 719468)"

text \<open>
  The integer a datetime column is ordered by: nanoseconds since the epoch, of the
  instant for an aware timestamp, of the wall clock for a naive one (which is what
  reading a naive timestamp as UTC gives).
\<close>

definition instant_ns :: "timestamp \<Rightarrow> int" where
  "instant_ns t =
     (days_from_civil (ts_year t) (ts_month t) (ts_day t) * 86400
        + ts_hour t * 3600 + ts_minute t * 60 + ts_second t
        - (case utcoffset t of None \<Rightarrow> 0 | Some off \<Rightarrow> off)) * 1000000000
      + ts_nanosecond t"

text \<open>
  Two routines of the library are parameters of the model, so that every theorem holds
  for each behaviour the library may have:
  \<^item> \<open>parse_datetime\<close>, the scalar parser behind \<open>pd.to_datetime\<close>: the timestamp a
    string denotes, or \<open>None\<close> when it has no reading;
  \<^item> \<open>argsort\<close>, the indexer behind \<open>DataFrame.sort_values(col)\<close>. The source does not
    pass \<open>kind\<close>, so the sort is the default \<open>quicksort\<close>, which pandas documents as
    not stable. What is known of it is \<open>argsort_spec\<close>: it returns a permutation of the
    positions that puts the keys in non-decreasing order.
\<close>

record pandas =
  argsort :: "int list \<Rightarrow> nat list"
  parse_datetime :: "string \<Rightarrow> timestamp option"

definition argsort_spec :: "(int list \<Rightarrow> nat list) \<Rightarrow> bool" where
  "argsort_spec f \<longleftrightarrow>
     (\<forall>ks. mset (f ks) = mset [0..<length ks] \<and> sorted (map (\<lambda>i. ks ! i) (f ks)))"

definition take_rows :: "nat list \<Rightarrow> 'a list \<Rightarrow> 'a list" where
  "take_rows idx xs = map (\<lambda>i. xs ! i) idx"

text \<open>
  A cell of a time column: the string of the request or of the fetcher, or the
  timestamp that \<open>pd.to_datetime\<close> has put in its place.
\<close>

datatype time_cell = Str string | Stamp timestamp

definition cell_timestamp :: "pandas \<Rightarrow> time_cell \<Rightarrow> timestamp option" where
  "cell_timestamp P c =
     (case (case c of Str s \<Rightarrow> parse_datetime P s | Stamp t \<Rightarrow> Some t) of
        None \<Rightarrow> None
      | Some t \<Rightarrow> if valid_timestamp t then Some t else None)"

text \<open>
  \<open>pd.to_datetime(column)\<close>, called without \<open>utc=True\<close>: it raises on a string it
  cannot read or whose fields are out of range; it keeps naive timestamps naive and
  aware ones at their own offset; a column that mixes naive with aware timestamps, or
  two offsets, does not become a datetime column (depending on the version the call
  itself raises, or the following sort or \<open>.dt\<close> access does), which the model reports
  as one error. Strings that pandas reads as \<open>NaT\<close> (the empty string) are not modelled.
\<close>

definition to_datetime :: "pandas \<Rightarrow> time_cell list \<Rightarrow> error + timestamp list" where
  "to_datetime P cells =
     (case those (map (cell_timestamp P) cells) of
        None \<Rightarrow> Inl (ValueError ''to_datetime: unparseable timestamp'')
      | Some ts \<Rightarrow>
          if list_all (\<lambda>t. utcoffset t = utcoffset (hd ts)) ts then Inr ts
          else Inl (ValueError ''to_datetime: mixed time zones''))"

text \<open>
  \<open>pd.to_datetime(column, utc=True)\<close>: every timestamp as its UTC instant, naive ones
  read as UTC; only an unreadable string fails.
\<close>

definition to_datetime_utc :: "pandas \<Rightarrow> time_cell list \<Rightarrow> error + int list" where
  "to_datetime_utc P cells =
     (case those (map (cell_timestamp P) cells) of
        None \<Rightarrow> Inl (ValueError ''to_datetime: unparseable timestamp'')
      | Some ts \<Rightarrow> Inr (map instant_ns ts))"

section \<open>preprocessing/feature_engineering.py\<close>

subsection \<open>Candles and frames\<close>

text \<open>
  A candle: the \<open>Candle\<close> of a request and the dictionary a fetcher returns, with the
  time as a string (\<open>string candle\<close>), and a row of the data frame built from them
  (\<open>time_cell candle\<close>). Prices are reals: the IEEE special values are modelled only
  where the source tests for them. \<open>volume\<close> is optional, a missing one is \<open>NaN\<close> in
  the frame. The column \<open>open\<close> is named \<open>open_price\<close> here.
\<close>

record 't candle =
  timeOpen :: 't
  open_price :: real
  high :: real
  low :: real
  close :: real
  volume :: "real option"

record row = "time_cell candle" +
  month :: int

definition ohlcv :: "('t, 'z) candle_scheme \<Rightarrow> real \<times> real \<times> real \<times> real \<times> real option" where
  "ohlcv r = (open_price r, high r, low r, close r, volume r)"

text \<open>
  \<open>pd.DataFrame(rows)\<close> of a list of candle dictionaries: one row per candle, in
  order. The frame of an empty list has no column at all, so in this program
  "\<open>timeOpen\<close> is not a column" and "the OHLC columns are missing" hold exactly of the
  empty frame, which has no fallback column \<open>time\<close> either; every other frame has the
  six candle columns.
\<close>

definition DataFrame :: "string candle list \<Rightarrow> time_cell candle list" where
  "DataFrame cs =
     map (\<lambda>c. \<lparr>timeOpen = Str (timeOpen c), open_price = open_price c, high = high c,
                 low = low c, close = close c, volume = volume c\<rparr>) cs"

subsection \<open>ensure_time_and_sort\<close>

text \<open>
  \<^verbatim>\<open>
  def ensure_time_and_sort(df, time_col="timeOpen", fallback_time_col="time", group_by=None):
      if time_col not in df.columns:
          if fallback_time_col in df.columns:
              df[time_col] = df[fallback_time_col]
          else:
              raise ValueError("No time column found. Provide 'timeOpen' or 'time'.")
      df[time_col] = pd.to_datetime(df[time_col])
      if group_by and group_by in df.columns:
          df = df.sort_values([group_by, time_col]).reset_index(drop=True)
      else:
          df = df.sort_values(time_col).reset_index(drop=True)
      df["month"] = df[time_col].dt.month
      return df
  \<close>
  Every call of the program leaves \<open>group_by\<close> at \<open>None\<close>. The assignment
  \<open>df[time_col] = ...\<close> writes into the frame the caller passed; \<open>sort_values\<close> returns
  a new frame, which gets the month column. The function therefore returns a pair: the
  caller's frame as the call leaves it, and the result or the exception. When the call
  raises, the first component is the frame as it was passed, which is what the caller
  holds when \<open>pd.to_datetime\<close> itself raises; a version of pandas that raises only
  at the sort or at \<open>.dt\<close> has replaced the column by then, and no theorem reads the
  first component on that path.
\<close>

definition ensure_time_and_sort ::
  "pandas \<Rightarrow> (time_cell, 'z) candle_scheme list \<Rightarrow>
     (time_cell, 'z) candle_scheme list \<times> (error + row list)" where
  "ensure_time_and_sort P df =
     (if df = [] then (df, Inl (ValueError ''No time column found. Provide timeOpen or time.''))
      else case to_datetime P (map timeOpen df) of
        Inl e \<Rightarrow> (df, Inl e)
      | Inr ts \<Rightarrow>
          (let stamped = zip df ts;
               ordered = take_rows (argsort P (map instant_ns ts)) stamped
           in (map (\<lambda>(r, t). r\<lparr>timeOpen := Stamp t\<rparr>) stamped,
               Inr (map (\<lambda>(r, t). \<lparr>timeOpen = Stamp t, open_price = open_price r,
                                    high = high r, low = low r, close = close r,
                                    volume = volume r, month = ts_month t\<rparr>) ordered))))"

text \<open>The sort key of a cell of a normalised frame.\<close>

definition stamp_key :: "time_cell \<Rightarrow> int" where
  "stamp_key c = (case c of Stamp t \<Rightarrow> instant_ns t | Str _ \<Rightarrow> 0)"

subsection \<open>Feature building\<close>

definition FINAL_FEATURES :: "string list" where
  "FINAL_FEATURES =
     [''close'', ''open'', ''low'',
      ''close_ema3'', ''low_ema3'',
      ''open_sma3'', ''open_sma7'',
      ''high_lag1'', ''high_lag2'',
      ''low_lag1'', ''low_lag2'',
      ''close_lag3'',
      ''volume'', ''volume_sma21'',
      ''month'']"

text \<open>
  \<^verbatim>\<open>
  def _ema(series, span):
      return series.ewm(span=span, adjust=False).mean()

  def _sma(series, window):
      return series.rolling(window, min_periods=1).mean()
  \<close>
  \<open>ewm(span, adjust=False).mean()\<close> is the recursion \<open>y0 = x0\<close>,
  \<open>y(t) = (1 - a) * y(t-1) + a * x(t)\<close> with \<open>a = 2 / (span + 1)\<close>.
  \<open>rolling(window, min_periods).mean()\<close> is, at each position, the mean of the
  observations present among the last \<open>window\<close> values up to that position, and
  \<open>NaN\<close> when fewer than \<open>min_periods\<close> are present. \<open>shift(k)\<close> moves a column down
  by \<open>k\<close> positions and fills the top with \<open>NaN\<close>.
\<close>

fun ewm_from :: "real \<Rightarrow> real \<Rightarrow> real list \<Rightarrow> real list" where
  "ewm_from \<alpha> y [] = []"
| "ewm_from \<alpha> y (x # xs) = (let y' = (1 - \<alpha>) * y + \<alpha> * x in y' # ewm_from \<alpha> y' xs)"

definition ema :: "real list \<Rightarrow> nat \<Rightarrow> real list" where
  "ema series n =
     (case series of [] \<Rightarrow> [] | x # xs \<Rightarrow> x # ewm_from (2 / (real n + 1)) x xs)"

definition rolling_mean :: "nat \<Rightarrow> nat \<Rightarrow> real option list \<Rightarrow> real option list" where
  "rolling_mean window min_periods series =
     map (\<lambda>i. let obs = List.map_filter (\<lambda>v. v) (drop (Suc i - window) (take (Suc i) series))
              in if obs = [] \<or> length obs < min_periods then None
                 else Some (sum_list obs / real (length obs)))
       [0..<length series]"

definition sma :: "real option list \<Rightarrow> nat \<Rightarrow> real option list" where
  "sma series window = rolling_mean window 1 series"

definition shift :: "nat \<Rightarrow> real list \<Rightarrow> real option list" where
  "shift k series =
     replicate (min k (length series)) None @ map Some (take (length series - k) series)"

text \<open>
  \<^verbatim>\<open>
  def build_features_from_ohlcv(df):
      if not {"open", "high", "low", "close"}.issubset(df.columns):
          missing = {"open", "high", "low", "close"} - set(df.columns)
          raise ValueError(f"Missing required OHLC columns: {sorted(missing)}")
      df = ensure_time_and_sort(df)
      df["close_ema3"] = _ema(df["close"], 3)
      df["low_ema3"] = _ema(df["low"], 3)
      df["open_sma3"] = _sma(df["open"], 3)
      df["open_sma7"] = _sma(df["open"], 7)
      if "volume" in df.columns:
          df["volume_sma21"] = _sma(df["volume"], 21)
      else:
          df["volume_sma21"] = np.nan
      df["high_lag1"] = df["high"].shift(1)
      df["high_lag2"] = df["high"].shift(2)
      df["low_lag1"] = df["low"].shift(1)
      df["low_lag2"] = df["low"].shift(2)
      df["close_lag3"] = df["close"].shift(3)
      return df
  \<close>
  Every frame of the program that has rows has a \<open>volume\<close> column (a request's candle
  and a fetcher's dictionary always carry the key), so the \<open>else\<close> branch is never
  taken; a volume that is missing in every row gives \<open>NaN\<close> in every row of
  \<open>volume_sma21\<close> through the rolling mean.
\<close>

record feat_row = row +
  close_ema3 :: real
  low_ema3 :: real
  open_sma3 :: "real option"
  open_sma7 :: "real option"
  volume_sma21 :: "real option"
  high_lag1 :: "real option"
  high_lag2 :: "real option"
  low_lag1 :: "real option"
  low_lag2 :: "real option"
  close_lag3 :: "real option"

definition feature_row :: "row list \<Rightarrow> nat \<Rightarrow> feat_row" where
  "feature_row df i =
     \<lparr>timeOpen = timeOpen (df ! i), open_price = open_price (df ! i),
      high = high (df ! i), low = low (df ! i), close = close (df ! i),
      volume = volume (df ! i), month = month (df ! i),
      close_ema3 = ema (map close df) 3 ! i,
      low_ema3 = ema (map low df) 3 ! i,
      open_sma3 = sma (map (Some \<circ> open_price) df) 3 ! i,
      open_sma7 = sma (map (Some \<circ> open_price) df) 7 ! i,
      volume_sma21 = sma (map volume df) 21 ! i,
      high_lag1 = shift 1 (map high df) ! i,
      high_lag2 = shift 2 (map high df) ! i,
      low_lag1 = shift 1 (map low df) ! i,
      low_lag2 = shift 2 (map low df) ! i,
      close_lag3 = shift 3 (map close df) ! i\<rparr>"

definition add_features :: "row list \<Rightarrow> feat_row list" where
  "add_features df = map (feature_row df) [0..<length df]"

definition build_features_from_ohlcv :: "pandas \<Rightarrow> row list \<Rightarrow> error + feat_row list" where
  "build_features_from_ohlcv P df_in =
     (if df_in = [] then Inl (ValueError ''Missing required OHLC columns'')
      else case snd (ensure_time_and_sort P df_in) of
        Inl e \<Rightarrow> Inl e
      | Inr df \<Rightarrow> Inr (add_features df))"

text \<open>
  The value of a named column in a row of the feature frame, as a float (\<open>None\<close> is
  \<open>NaN\<close>); the program reads only the columns of \<open>FINAL_FEATURES\<close>.
\<close>

definition feature_cell :: "feat_row \<Rightarrow> string \<Rightarrow> real option" where
  "feature_cell r name =
     (if name = ''close'' then Some (close r)
      else if name = ''open'' then Some (open_price r)
      else if name = ''low'' then Some (low r)
      else if name = ''close_ema3'' then Some (close_ema3 r)
      else if name = ''low_ema3'' then Some (low_ema3 r)
      else if name = ''open_sma3'' then open_sma3 r
      else if name = ''open_sma7'' then open_sma7 r
      else if name = ''high_lag1'' then high_lag1 r
      else if name = ''high_lag2'' then high_lag2 r
      else if name = ''low_lag1'' then low_lag1 r
      else if name = ''low_lag2'' then low_lag2 r
      else if name = ''close_lag3'' then close_lag3 r
      else if name = ''volume'' then volume r
      else if name = ''volume_sma21'' then volume_sma21 r
      else if name = ''month'' then Some (real_of_int (month r))
      else None)"

text \<open>\<open>df.dropna(subset=names)\<close> and \<open>df[names]\<close>.\<close>

definition dropna :: "string list \<Rightarrow> feat_row list \<Rightarrow> feat_row list" where
  "dropna names df = filter (\<lambda>r. list_all (\<lambda>name. feature_cell r name \<noteq> None) names) df"

definition select_columns :: "string list \<Rightarrow> feat_row \<Rightarrow> (string \<times> real option) list" where
  "select_columns names r = map (\<lambda>name. (name, feature_cell r name)) names"

section \<open>app/main.py\<close>

subsection \<open>Helpers\<close>

text \<open>\<open>str.lower\<close> and \<open>str.upper\<close>, on ASCII letters.\<close>

definition lower_char :: "char \<Rightarrow> char" where
  "lower_char c = (if CHR ''A'' \<le> c \<and> c \<le> CHR ''Z'' then char_of (of_char c + (32::nat)) else c)"

definition upper_char :: "char \<Rightarrow> char" where
  "upper_char c = (if CHR ''a'' \<le> c \<and> c \<le> CHR ''z'' then char_of (of_char c - (32::nat)) else c)"

definition lower :: "string \<Rightarrow> string" where
  "lower s = map lower_char s"

definition upper :: "string \<Rightarrow> string" where
  "upper s = map upper_char s"

text \<open>The text of an exception, for the messages that quote one.\<close>

fun str_of_error :: "error \<Rightarrow> string" where
  "str_of_error (HTTPException code detail) = detail"
| "str_of_error (ValueError m) = m"
| "str_of_error (RuntimeError m) = m"
| "str_of_error (TypeError m) = m"
| "str_of_error (AttributeError m) = m"
| "str_of_error IndexError = ''list index out of range''"
| "str_of_error KeyError = ''KeyError''"
| "str_of_error (RequestException m) = m"

text \<open>
  \<^verbatim>\<open>
  def _prepare_features(df_in):
      df_feat = build_features_from_ohlcv(df_in)
      df_feat = df_feat.dropna(subset=FINAL_FEATURES).reset_index(drop=True)
      return df_feat[FINAL_FEATURES]
  \<close>
  The result is the matrix of usable rows: each row lists the fifteen features by
  name, in the order of \<open>FINAL_FEATURES\<close>.
\<close>

definition prepare_features :: "pandas \<Rightarrow> row list \<Rightarrow> error + (string \<times> real option) list list" where
  "prepare_features P df_in =
     (case build_features_from_ohlcv P df_in of
        Inl e \<Rightarrow> Inl e
      | Inr df_feat \<Rightarrow> Inr (map (select_columns FINAL_FEATURES) (dropna FINAL_FEATURES df_feat)))"

subsection \<open>Inverting the model output\<close>

text \<open>
  \<^verbatim>\<open>
  def _invert_prediction(yhat_raw, last_high, mode):
      if mode == "level":
          return float(yhat_raw)
      if last_high is None or not np.isfinite(last_high):
          raise HTTPException(status_code=400, detail="Cannot invert prediction without a valid last high.")
      if mode == "delta":
          return float(last_high + yhat_raw)
      if mode == "logdiff":
          return float(np.exp(yhat_raw) * last_high)
      raise HTTPException(status_code=400, detail=f"Unknown target mode: {mode}")
  \<close>
  The two failures are what the specification calls \<open>InversionError\<close> and
  \<open>UnsupportedModeError\<close>; in the source both are HTTP 400 and differ in the
  detail string.
\<close>

definition InversionError :: error where
  "InversionError = HTTPException 400 ''Cannot invert prediction without a valid last high.''"

definition UnsupportedModeError :: "string \<Rightarrow> error" where
  "UnsupportedModeError mode = HTTPException 400 (''Unknown target mode: '' @ mode)"

definition invert_prediction :: "pyfloat \<Rightarrow> pyfloat option \<Rightarrow> string \<Rightarrow> error + pyfloat" where
  "invert_prediction yhat_raw last_high mode =
     (if mode = ''level'' then Inr yhat_raw
      else case last_high of
        None \<Rightarrow> Inl InversionError
      | Some h \<Rightarrow>
          if \<not> isfinite h then Inl InversionError
          else if mode = ''delta'' then Inr (fadd h yhat_raw)
          else if mode = ''logdiff'' then Inr (fmul (fexp yhat_raw) h)
          else Inl (UnsupportedModeError mode))"

subsection \<open>The endpoints\<close>

record PredictResponse =
  predicted_high_next_day :: pyfloat
  target_mode :: string
  last_known_high :: "pyfloat option"
  features_used :: "string list"
  feature_vector_tail :: "(string \<times> real option) list"

record PredictTokenResponse = PredictResponse +
  token :: string
  history_rows_used :: nat

text \<open>
  The three endpoints end with the same block, from \<open>last_high = ...\<close> to the
  response (lines 174-193, 219-240 and 279-300 of the source):
  \<^verbatim>\<open>
      last_high = float(df["high"].iloc[-1])
      X = _prepare_features(df)
      if X.empty:
          raise HTTPException(status_code=400, detail="Not enough history after feature engineering (NaNs after lags/SMAs).")
      x_tail = X.iloc[[-1]]
      try:
          yhat_raw = float(model.predict(x_tail)[0])
      except Exception as e:
          raise HTTPException(status_code=500, detail=f"Model prediction failed: {e}")
      yhat = _invert_prediction(yhat_raw, last_high, mode)
      return PredictResponse(predicted_high_next_day=yhat, target_mode=mode,
          last_known_high=last_high, features_used=FINAL_FEATURES,
          feature_vector_tail={k: (None if pd.isna(v) else float(v)) for k, v in x_tail.iloc[0].to_dict().items()})
  \<close>
  The model is a parameter: a function of the feature row that returns the raw output,
  or the text of the exception it raises. The frame is never empty where the block runs.
\<close>

type_synonym model = "(string \<times> real option) list \<Rightarrow> string + pyfloat"

definition predict_on_frame :: "pandas \<Rightarrow> model \<Rightarrow> string \<Rightarrow> row list \<Rightarrow> error + PredictResponse" where
  "predict_on_frame P model mode df =
     (let last_high = Finite (high (last df)) in
      case prepare_features P df of
        Inl e \<Rightarrow> Inl e
      | Inr X \<Rightarrow>
          if X = [] then
            Inl (HTTPException 400
              ''Not enough history after feature engineering (NaNs after lags/SMAs).'')
          else
            (let x_tail = last X in
             case model x_tail of
               Inl e \<Rightarrow> Inl (HTTPException 500 (''Model prediction failed: '' @ e))
             | Inr yhat_raw \<Rightarrow>
                 (case invert_prediction yhat_raw (Some last_high) mode of
                    Inl e \<Rightarrow> Inl e
                  | Inr yhat \<Rightarrow>
                      Inr \<lparr>predicted_high_next_day = yhat, target_mode = mode,
                           last_known_high = Some last_high, features_used = FINAL_FEATURES,
                           feature_vector_tail = x_tail\<rparr>)))"

text \<open>\<open>(target_mode or MODEL_TARGET_MODE).lower()\<close>\<close>

definition resolve_mode :: "string option \<Rightarrow> string \<Rightarrow> string" where
  "resolve_mode requested_mode default_mode =
     lower (case requested_mode of None \<Rightarrow> default_mode
            | Some m \<Rightarrow> if m = [] then default_mode else m)"

text \<open>
  \<^verbatim>\<open>
  @app.post("/predict", response_model=PredictResponse)
  def predict(req):
      mode = (req.target_mode or MODEL_TARGET_MODE).lower()
      if not req.candles or len(req.candles) < 21:
          raise HTTPException(status_code=400, detail="Please provide at least 21 recent candles for features like volume_sma21.")
      df = pd.DataFrame([c.dict() for c in req.candles])
      missing_cols = {"timeOpen", "open", "high", "low", "close"} - set(df.columns)
      if missing_cols:
          raise HTTPException(status_code=400, detail=f"Missing required columns: {sorted(missing_cols)}")
      df = ensure_time_and_sort(df, time_col="timeOpen")
      ...
  \<close>
  The request is its two fields. A \<open>Candle\<close> always has the five required keys, so
  \<open>missing_cols\<close> is empty. An exception of \<open>ensure_time_and_sort\<close> is not caught.
\<close>

definition predict ::
  "pandas \<Rightarrow> model \<Rightarrow> string \<Rightarrow> string candle list \<Rightarrow> string option \<Rightarrow> error + PredictResponse" where
  "predict P model MODEL_TARGET_MODE candles requested_mode =
     (let mode = resolve_mode requested_mode MODEL_TARGET_MODE in
      if candles = [] \<or> length candles < 21 then
        Inl (HTTPException 400
          ''Please provide at least 21 recent candles for features like volume_sma21.'')
      else case snd (ensure_time_and_sort P (DataFrame candles)) of
        Inl e \<Rightarrow> Inl e
      | Inr df \<Rightarrow> predict_on_frame P model mode df)"

text \<open>
  \<^verbatim>\<open>
  @app.get("/predict/sol", response_model=PredictTokenResponse)
  def predict_sol(n, target_mode):
      if fetch_candles is None:
          raise HTTPException(status_code=501, detail="No fetcher available. ...")
      mode = (target_mode or MODEL_TARGET_MODE).lower()
      try:
          rows = fetch_candles("SOLUSD", n)
      except Exception as e:
          raise HTTPException(status_code=502, detail=f"Fetcher failed: {e}")
      df = pd.DataFrame(rows)
      df = ensure_time_and_sort(df, time_col="timeOpen")
      if len(df) < 21:
          raise HTTPException(status_code=400, detail="Insufficient history (need >= 21 rows).")
      ...
  \<close>
  The fetcher is a parameter (\<open>None\<close> when its import failed); the argument
  \<open>target_mode\<close> is named \<open>requested_mode\<close>. The bounds on \<open>n\<close> are checked by the
  framework before the function runs.
\<close>

definition predict_sol ::
  "pandas \<Rightarrow> model \<Rightarrow> string \<Rightarrow> (string \<Rightarrow> int \<Rightarrow> error + string candle list) option \<Rightarrow>
     int \<Rightarrow> string option \<Rightarrow> error + PredictTokenResponse" where
  "predict_sol P model MODEL_TARGET_MODE fetch_candles n requested_mode =
     (case fetch_candles of
        None \<Rightarrow> Inl (HTTPException 501 ''No fetcher available.'')
      | Some fetch \<Rightarrow>
          (let mode = resolve_mode requested_mode MODEL_TARGET_MODE in
           case fetch ''SOLUSD'' n of
             Inl e \<Rightarrow> Inl (HTTPException 502 (''Fetcher failed: '' @ str_of_error e))
           | Inr rows \<Rightarrow>
               (case snd (ensure_time_and_sort P (DataFrame rows)) of
                  Inl e \<Rightarrow> Inl e
                | Inr df \<Rightarrow>
                    if length df < 21 then
                      Inl (HTTPException 400 ''Insufficient history (need >= 21 rows).'')
                    else
                      (case predict_on_frame P model mode df of
                         Inl e \<Rightarrow> Inl e
                       | Inr r \<Rightarrow>
                           Inr \<lparr>predicted_high_next_day = predicted_high_next_day r,
                                target_mode = target_mode r,
                                last_known_high = last_known_high r,
                                features_used = features_used r,
                                feature_vector_tail = feature_vector_tail r,
                                token = ''SOLUSD'',
                                history_rows_used = length df\<rparr>))))"

text \<open>
  The cut to the anchor of \<open>predict_sol_at\<close> (lines 270-277 of the source):
  \<^verbatim>\<open>
      ts = pd.to_datetime(df["timeOpen"], utc=True)
      mask = ts <= anchor
      if not bool(mask.any()):
          raise HTTPException(status_code=404, detail="No candles at or before the requested date.")
      df_cut = df.loc[mask].copy()
      if len(df_cut) < 21:
          raise HTTPException(status_code=400, detail="Insufficient history before the requested date (need >= 21 rows).")
  \<close>
  The first failure is what the specification calls \<open>NoDataBeforeAnchorError\<close>, the
  second \<open>InsufficientHistoryError\<close>.
\<close>

definition NoDataBeforeAnchorError :: error where
  "NoDataBeforeAnchorError = HTTPException 404 ''No candles at or before the requested date.''"

definition InsufficientHistoryError :: error where
  "InsufficientHistoryError =
     HTTPException 400 ''Insufficient history before the requested date (need >= 21 rows).''"

definition cut_to_anchor :: "pandas \<Rightarrow> row list \<Rightarrow> int \<Rightarrow> error + row list" where
  "cut_to_anchor P df anchor =
     (case to_datetime_utc P (map timeOpen df) of
        Inl e \<Rightarrow> Inl e
      | Inr ts \<Rightarrow>
          (let mask = map (\<lambda>t. t \<le> anchor) ts in
           if \<not> list_ex (\<lambda>b. b) mask then Inl NoDataBeforeAnchorError
           else
             (let df_cut = map fst (filter snd (zip df mask)) in
              if length df_cut < 21 then Inl InsufficientHistoryError
              else Inr df_cut)))"

text \<open>
  \<^verbatim>\<open>
  @app.get("/predict/sol/at", response_model=PredictTokenResponse)
  def predict_sol_at(date, n, target_mode):
      if fetch_candles is None:
          raise HTTPException(status_code=501, detail="No fetcher available. ...")
      mode = (target_mode or MODEL_TARGET_MODE).lower()
      try:
          rows = fetch_candles("SOLUSD", n)
      except Exception as e:
          raise HTTPException(status_code=502, detail=f"Fetcher failed: {e}")
      df = pd.DataFrame(rows)
      df = ensure_time_and_sort(df, time_col="timeOpen")
      try:
          anchor = pd.to_datetime(date, utc=True)
      except Exception:
          raise HTTPException(status_code=400, detail="Invalid date. ...")
      ...
  \<close>
  As for \<open>predict_sol\<close>, the fetcher is a parameter.
\<close>

definition predict_sol_at ::
  "pandas \<Rightarrow> model \<Rightarrow> string \<Rightarrow> (string \<Rightarrow> int \<Rightarrow> error + string candle list) option \<Rightarrow>
     string \<Rightarrow> int \<Rightarrow> string option \<Rightarrow> error + PredictTokenResponse" where
  "predict_sol_at P model MODEL_TARGET_MODE fetch_candles date n requested_mode =
     (case fetch_candles of
        None \<Rightarrow> Inl (HTTPException 501 ''No fetcher available.'')
      | Some fetch \<Rightarrow>
          (let mode = resolve_mode requested_mode MODEL_TARGET_MODE in
           case fetch ''SOLUSD'' n of
             Inl e \<Rightarrow> Inl (HTTPException 502 (''Fetcher failed: '' @ str_of_error e))
           | Inr rows \<Rightarrow>
               (case snd (ensure_time_and_sort P (DataFrame rows)) of
                  Inl e \<Rightarrow> Inl e
                | Inr df \<Rightarrow>
                    (case cell_timestamp P (Str date) of
                       None \<Rightarrow> Inl (HTTPException 400 ''Invalid date.'')
                     | Some anchor \<Rightarrow>
                         (case cut_to_anchor P df (instant_ns anchor) of
                            Inl e \<Rightarrow> Inl e
                          | Inr df_cut \<Rightarrow>
                              (case predict_on_frame P model mode df_cut of
                                 Inl e \<Rightarrow> Inl e
                               | Inr r \<Rightarrow>
                                   Inr \<lparr>predicted_high_next_day = predicted_high_next_day r,
                                        target_mode = target_mode r,
                                        last_known_high = last_known_high r,
                                        features_used = features_used r,
                                        feature_vector_tail = feature_vector_tail r,
                                        token = ''SOLUSD'',
                                        history_rows_used = length df_cut\<rparr>))))))"

section \<open>fetch/kraken_ohlc_solusd.py and fetch/sol_fetch.py\<close>

subsection \<open>Python values and builtins\<close>

text \<open>
  What \<open>r.json()\<close> returns. A dictionary is its list of items, in insertion order,
  with distinct keys.
\<close>

datatype json =
    JNull
  | JBool bool
  | JInt int
  | JFloat real
  | JStr string
  | JList "json list"
  | JDict "(string \<times> json) list"

text \<open>
  The readers of number literals behind \<open>int(str)\<close> and \<open>float(str)\<close> are
  parameters: the number a string denotes, or \<open>None\<close> when the builtin raises
  \<open>ValueError\<close>.
\<close>

record python =
  int_of_str :: "string \<Rightarrow> int option"
  float_of_str :: "string \<Rightarrow> real option"

definition ebind :: "error + 'a \<Rightarrow> ('a \<Rightarrow> error + 'b) \<Rightarrow> error + 'b" where
  "ebind m f = (case m of Inl e \<Rightarrow> Inl e | Inr x \<Rightarrow> f x)"

definition truthy :: "json \<Rightarrow> bool" where
  "truthy v =
     (case v of JNull \<Rightarrow> False | JBool b \<Rightarrow> b | JInt i \<Rightarrow> i \<noteq> 0 | JFloat x \<Rightarrow> x \<noteq> 0
      | JStr s \<Rightarrow> s \<noteq> [] | JList xs \<Rightarrow> xs \<noteq> [] | JDict d \<Rightarrow> d \<noteq> [])"

definition py_int :: "python \<Rightarrow> json \<Rightarrow> error + int" where
  "py_int Y v =
     (case v of
        JInt i \<Rightarrow> Inr i
      | JBool b \<Rightarrow> Inr (if b then 1 else 0)
      | JFloat x \<Rightarrow> Inr (if 0 \<le> x then \<lfloor>x\<rfloor> else \<lceil>x\<rceil>)
      | JStr s \<Rightarrow>
          (case int_of_str Y s of
             None \<Rightarrow> Inl (ValueError ''invalid literal for int()'')
           | Some i \<Rightarrow> Inr i)
      | _ \<Rightarrow> Inl (TypeError ''int() argument must be a string or a number''))"

definition py_float :: "python \<Rightarrow> json \<Rightarrow> error + real" where
  "py_float Y v =
     (case v of
        JInt i \<Rightarrow> Inr (real_of_int i)
      | JBool b \<Rightarrow> Inr (if b then 1 else 0)
      | JFloat x \<Rightarrow> Inr x
      | JStr s \<Rightarrow>
          (case float_of_str Y s of
             None \<Rightarrow> Inl (ValueError ''could not convert string to float'')
           | Some x \<Rightarrow> Inr x)
      | _ \<Rightarrow> Inl (TypeError ''float() argument must be a string or a number''))"

text \<open>\<open>row[k]\<close> for a constant index \<open>k \<ge> 0\<close>.\<close>

definition getitem :: "json \<Rightarrow> nat \<Rightarrow> error + json" where
  "getitem v k =
     (case v of
        JList xs \<Rightarrow> if k < length xs then Inr (xs ! k) else Inl IndexError
      | JStr s \<Rightarrow> if k < length s then Inr (JStr [s ! k]) else Inl IndexError
      | JDict d \<Rightarrow> Inl KeyError
      | _ \<Rightarrow> Inl (TypeError ''object is not subscriptable''))"

text \<open>
  \<open>rows[-n:]\<close>, as the list the loop iterates over: the last \<open>n\<close> items for
  \<open>n > 0\<close>, every item for \<open>n = 0\<close>, the items from position \<open>-n\<close> on for
  \<open>n < 0\<close>; a string gives its characters; anything else cannot be sliced.
\<close>

definition last_items :: "'a list \<Rightarrow> int \<Rightarrow> 'a list" where
  "last_items xs n = (if 0 < n then drop (length xs - nat n) xs else drop (nat (- n)) xs)"

definition slice_last :: "json \<Rightarrow> int \<Rightarrow> error + json list" where
  "slice_last rows n =
     (case rows of
        JList xs \<Rightarrow> Inr (last_items xs n)
      | JStr s \<Rightarrow> Inr (map (\<lambda>c. JStr [c]) (last_items s n))
      | _ \<Rightarrow> Inl (TypeError ''object is not subscriptable''))"

text \<open>\<open>d.get(key, default)\<close> and \<open>d.keys()\<close>; on a value other than a dictionary the
  attribute does not exist.\<close>

definition dict_get :: "json \<Rightarrow> string \<Rightarrow> json \<Rightarrow> error + json" where
  "dict_get v key dflt =
     (case v of
        JDict d \<Rightarrow> Inr (case map_of d key of None \<Rightarrow> dflt | Some x \<Rightarrow> x)
      | _ \<Rightarrow> Inl (AttributeError ''object has no attribute get''))"

definition dict_keys :: "json \<Rightarrow> error + string list" where
  "dict_keys v =
     (case v of
        JDict d \<Rightarrow> Inr (map fst d)
      | _ \<Rightarrow> Inl (AttributeError ''object has no attribute keys''))"

text \<open>
  \<open>datetime.fromtimestamp(sec, tz=timezone.utc).isoformat().replace("+00:00", "Z")\<close>:
  the civil date of a number of seconds since the epoch, written
  \<open>YYYY-MM-DDTHH:MM:SSZ\<close>; the call raises outside the years 1 to 9999.
\<close>

definition civil_from_days :: "int \<Rightarrow> int \<times> int \<times> int" where
  "civil_from_days z0 =
     (let z = z0 + 719468;
          era = z div 146097;
          doe = z - era * 146097;
          yoe = (doe - doe div 1460 + doe div 36524 - doe div 146096) div 365;
          doy = doe - (365 * yoe + yoe div 4 - yoe div 100);
          mp = (5 * doy + 2) div 153;
          d = doy - (153 * mp + 2) div 5 + 1;
          m = (if mp < 10 then mp + 3 else mp - 9);
          y = yoe + era * 400
      in (if m \<le> 2 then y + 1 else y, m, d))"

definition digit_char :: "int \<Rightarrow> char" where
  "digit_char d = char_of (48 + nat d)"

definition pad2 :: "int \<Rightarrow> string" where
  "pad2 k = [digit_char (k div 10 mod 10), digit_char (k mod 10)]"

definition pad4 :: "int \<Rightarrow> string" where
  "pad4 k = pad2 (k div 100) @ pad2 (k mod 100)"

definition utc_isoformat :: "int \<Rightarrow> error + string" where
  "utc_isoformat sec =
     (case civil_from_days (sec div 86400) of (y, m, d) \<Rightarrow>
        if y < 1 \<or> 9999 < y then Inl (ValueError ''year is out of range'')
        else
          (let s = sec mod 86400 in
           Inr (pad4 y @ ''-'' @ pad2 m @ ''-'' @ pad2 d @ ''T'' @ pad2 (s div 3600) @ '':''
                @ pad2 (s div 60 mod 60) @ '':'' @ pad2 (s mod 60) @ ''Z'')))"

text \<open>
  The exchange is a parameter: what \<open>requests.get(url, params, timeout)\<close>, then
  \<open>r.raise_for_status()\<close> and \<open>r.json()\<close> give for a pair and an interval. The first
  two failures are \<open>requests.RequestException\<close>s, the third a \<open>ValueError\<close>.
\<close>

datatype http_result =
    ConnectionFailed string
  | HTTPStatusError string
  | JSONDecodeError string
  | Response json

type_synonym kraken_api = "string \<Rightarrow> int \<Rightarrow> http_result"

definition request_json :: "kraken_api \<Rightarrow> string \<Rightarrow> int \<Rightarrow> error + json" where
  "request_json K pair interval =
     (case K pair interval of
        ConnectionFailed m \<Rightarrow> Inl (RequestException m)
      | HTTPStatusError m \<Rightarrow> Inl (RequestException m)
      | JSONDecodeError m \<Rightarrow> Inl (ValueError m)
      | Response data \<Rightarrow> Inr data)"

subsection \<open>fetch/kraken_ohlc_solusd.py\<close>

definition PAIR_ALIASES :: "(string \<times> string) list" where
  "PAIR_ALIASES = [(''SOL'', ''SOLUSD''), (''SOLUSD'', ''SOLUSD''), (''SOLUSDT'', ''SOLUSDT'')]"

definition ALLOWED_INTERVALS :: "int set" where
  "ALLOWED_INTERVALS = {1, 5, 15, 30, 60, 240, 1440, 10080}"

text \<open>
  \<^verbatim>\<open>
  def _kraken_pair(token):
      t = token.upper().replace("-", "")
      if t not in _PAIR_ALIASES:
          raise ValueError("Only Solana is supported. Use SOL, SOLUSD or SOLUSDT.")
      return _PAIR_ALIASES[t]

  def _iso_from_epoch(sec):
      return datetime.fromtimestamp(sec, tz=timezone.utc).isoformat().replace("+00:00", "Z")
  \<close>
\<close>

definition kraken_pair :: "string \<Rightarrow> error + string" where
  "kraken_pair tok =
     (let t = filter (\<lambda>c. c \<noteq> CHR ''-'') (upper tok) in
      case map_of PAIR_ALIASES t of
        None \<Rightarrow> Inl (ValueError ''Only Solana is supported. Use SOL, SOLUSD or SOLUSDT.'')
      | Some pair \<Rightarrow> Inr pair)"

definition iso_from_epoch :: "int \<Rightarrow> error + string" where
  "iso_from_epoch sec = utc_isoformat sec"

text \<open>
  The body of the \<open>try\<close> in the loop of the second definition of
  \<open>get_recent_candles\<close>: one row of the payload as a candle. Python evaluates
  \<open>int(row[0])\<close>, then the items of the dictionary in the order written.
  \<^verbatim>\<open>
              ts = int(row[0])
              out.append({
                  "timeOpen": _iso_from_epoch(ts),
                  "open": float(row[1]),
                  "high": float(row[2]),
                  "low": float(row[3]),
                  "close": float(row[4]),
                  "volume": float(row[6]),
              })
  \<close>
\<close>

definition kraken_candle :: "python \<Rightarrow> json \<Rightarrow> error + string candle" where
  "kraken_candle Y row =
     ebind (ebind (getitem row 0) (py_int Y)) (\<lambda>ts.
     ebind (iso_from_epoch ts) (\<lambda>t.
     ebind (ebind (getitem row 1) (py_float Y)) (\<lambda>op.
     ebind (ebind (getitem row 2) (py_float Y)) (\<lambda>hi.
     ebind (ebind (getitem row 3) (py_float Y)) (\<lambda>lo.
     ebind (ebind (getitem row 4) (py_float Y)) (\<lambda>cl.
     ebind (ebind (getitem row 6) (py_float Y)) (\<lambda>vol.
     Inr \<lparr>timeOpen = t, open_price = op, high = hi, low = lo, close = cl,
          volume = Some vol\<rparr>)))))))"

text \<open>
  The loop of the two definitions in this module: a row whose conversion raises is
  skipped (\<open>except Exception: continue\<close>).
\<close>

fun kraken_loop :: "python \<Rightarrow> json list \<Rightarrow> string candle list" where
  "kraken_loop Y [] = []"
| "kraken_loop Y (row # rows) =
     (case kraken_candle Y row of
        Inl e \<Rightarrow> kraken_loop Y rows
      | Inr c \<Rightarrow> c # kraken_loop Y rows)"

text \<open>
  The search for the key of the pair: \<open>next((k for k in res.keys() if k.lower() ==
  pair.lower()), None)\<close> in the first definition (and in \<open>sol_fetch\<close>), a \<open>for\<close> loop
  with \<open>break\<close> in the second.
\<close>

definition next_key :: "string \<Rightarrow> string list \<Rightarrow> string option" where
  "next_key pair ks = List.find (\<lambda>k. lower k = lower pair) ks"

fun loop_key :: "string \<Rightarrow> string list \<Rightarrow> string option" where
  "loop_key pair [] = None"
| "loop_key pair (k # ks) = (if lower k = lower pair then Some k else loop_key pair ks)"

text \<open>
  \<^verbatim>\<open>
      if key is None:
          keys = [k for k in res.keys() if k != "last"]
          if not keys:
              raise RuntimeError(f"Unexpected Kraken payload keys: {list(res.keys())}")
          key = keys[0]
  \<close>
\<close>

definition fallback_key :: "string option \<Rightarrow> string list \<Rightarrow> error + string" where
  "fallback_key key ks =
     (case key of
        Some k \<Rightarrow> Inr k
      | None \<Rightarrow>
          (case filter (\<lambda>k. k \<noteq> ''last'') ks of
             [] \<Rightarrow> Inl (RuntimeError ''Unexpected Kraken payload keys'')
           | k # _ \<Rightarrow> Inr k))"

text \<open>
  The first definition of \<open>get_recent_candles\<close> (line 25 of the source), with the
  check of the interval:
  \<^verbatim>\<open>
  def get_recent_candles(token, n, interval=1440):
      if n <= 0:
          return []
      if interval not in _ALLOWED_INTERVALS:
          raise ValueError(f"Unsupported interval={interval}. Choose one of {_ALLOWED_INTERVALS}.")
      pair = _kraken_pair(token)
      ...
  \<close>
  Here and below a message that quotes a value is cut down to its fixed words, and the
  argument \<open>token\<close> is named \<open>tok\<close>.
\<close>

definition get_recent_candles_1 ::
  "python \<Rightarrow> kraken_api \<Rightarrow> string \<Rightarrow> int \<Rightarrow> int \<Rightarrow> error + string candle list" where
  "get_recent_candles_1 Y K tok n interval =
     (if n \<le> 0 then Inr []
      else if interval \<notin> ALLOWED_INTERVALS then
        Inl (ValueError ''Unsupported interval. Choose one of the Kraken-supported minutes.'')
      else
        ebind (kraken_pair tok) (\<lambda>pair.
        ebind (case request_json K pair interval of
                 Inl (ValueError m) \<Rightarrow> Inl (RuntimeError (''Invalid JSON from Kraken: '' @ m))
               | Inl e \<Rightarrow> Inl (RuntimeError (''HTTP error contacting Kraken: '' @ str_of_error e))
               | Inr data \<Rightarrow> Inr data) (\<lambda>data.
        (case data of
           JDict d \<Rightarrow>
             ebind (dict_get data ''error'' JNull) (\<lambda>err.
             if truthy err then Inl (RuntimeError ''Kraken error'')
             else
               ebind (dict_get data ''result'' (JDict [])) (\<lambda>res.
               ebind (dict_keys res) (\<lambda>ks.
               ebind (fallback_key (next_key pair ks) ks) (\<lambda>key.
               ebind (dict_get res key (JList [])) (\<lambda>rows.
               if \<not> truthy rows then Inl (RuntimeError ''No OHLC rows returned from Kraken.'')
               else
                 ebind (slice_last rows n) (\<lambda>sel.
                 Inr (sort_key timeOpen (kraken_loop Y sel))))))))
         | _ \<Rightarrow> Inl (RuntimeError ''Unexpected Kraken response type'')))))"

text \<open>
  The second definition (line 92 of the source): no check of the interval, and every
  exception of the request becomes a \<open>RuntimeError\<close>:
  \<^verbatim>\<open>
  def get_recent_candles(token, n, interval=1440):
      if n <= 0:
          return []
      pair = _kraken_pair(token)
      url = "https://api.kraken.com/0/public/OHLC"
      params = {"pair": pair, "interval": interval}
      try:
          r = requests.get(url, params=params, timeout=30)
          r.raise_for_status()
          data = r.json()
      except Exception as e:
          raise RuntimeError(f"HTTP error contacting Kraken: {e}")
      if not isinstance(data, dict):
          raise RuntimeError("Unexpected Kraken response type")
      if data.get("error"):
          raise RuntimeError(f"Kraken error: {data['error']}")
      res = data.get("result", {})
      ...
      rows = res.get(key, [])
      if not rows:
          raise RuntimeError("No OHLC rows returned from Kraken.")
      out = []
      for row in rows[-n:]:
          try:
              ...
          except Exception:
              continue
      out.sort(key=lambda d: d["timeOpen"])
      return out
  \<close>
\<close>

definition get_recent_candles_2 ::
  "python \<Rightarrow> kraken_api \<Rightarrow> string \<Rightarrow> int \<Rightarrow> int \<Rightarrow> error + string candle list" where
  "get_recent_candles_2 Y K tok n interval =
     (if n \<le> 0 then Inr []
      else
        ebind (kraken_pair tok) (\<lambda>pair.
        ebind (case request_json K pair interval of
                 Inl e \<Rightarrow> Inl (RuntimeError (''HTTP error contacting Kraken: '' @ str_of_error e))
               | Inr data \<Rightarrow> Inr data) (\<lambda>data.
        (case data of
           JDict d \<Rightarrow>
             ebind (dict_get data ''error'' JNull) (\<lambda>err.
             if truthy err then Inl (RuntimeError ''Kraken error'')
             else
               ebind (dict_get data ''result'' (JDict [])) (\<lambda>res.
               ebind (dict_keys res) (\<lambda>ks.
               ebind (fallback_key (loop_key pair ks) ks) (\<lambda>key.
               ebind (dict_get res key (JList [])) (\<lambda>rows.
               if \<not> truthy rows then Inl (RuntimeError ''No OHLC rows returned from Kraken.'')
               else
                 ebind (slice_last rows n) (\<lambda>sel.
                 Inr (sort_key timeOpen (kraken_loop Y sel))))))))
         | _ \<Rightarrow> Inl (RuntimeError ''Unexpected Kraken response type'')))))"

text \<open>
  The module is executed from top to bottom; each \<open>def\<close> statement binds its name in
  the module's namespace, a later one replacing an earlier one. The name
  \<open>get_recent_candles\<close> is bound twice. What the module exports under a name, and
  what a call from \<open>app.main\<close> runs, is the binding left at the end.
\<close>

datatype kraken_def =
    Def_get_recent_candles_1
  | Def_kraken_pair
  | Def_iso_from_epoch
  | Def_get_recent_candles_2

definition kraken_module_body :: "(string \<times> kraken_def) list" where
  "kraken_module_body =
     [(''get_recent_candles'', Def_get_recent_candles_1),
      (''_kraken_pair'', Def_kraken_pair),
      (''_iso_from_epoch'', Def_iso_from_epoch),
      (''get_recent_candles'', Def_get_recent_candles_2)]"

definition exec_module :: "(string \<times> 'd) list \<Rightarrow> (string \<rightharpoonup> 'd)" where
  "exec_module body = fold (\<lambda>(name, d) globals. globals(name \<mapsto> d)) body Map.empty"

definition kraken_get_recent_candles ::
  "python \<Rightarrow> kraken_api \<Rightarrow> string \<Rightarrow> int \<Rightarrow> int \<Rightarrow> error + string candle list" where
  "kraken_get_recent_candles Y K tok n interval =
     (case exec_module kraken_module_body ''get_recent_candles'' of
        Some Def_get_recent_candles_1 \<Rightarrow> get_recent_candles_1 Y K tok n interval
      | Some Def_get_recent_candles_2 \<Rightarrow> get_recent_candles_2 Y K tok n interval
      | _ \<Rightarrow> Inl (TypeError ''get_recent_candles is not a function of two or three arguments''))"

subsection \<open>fetch/sol_fetch.py\<close>

text \<open>
  \<^verbatim>\<open>
  def get_recent_candles(token, n, interval=1440):
      pair = _norm_token(token)
      url = "https://api.kraken.com/0/public/OHLC"
      params = {"pair": pair, "interval": interval}
      r = requests.get(url, params=params, timeout=30)
      r.raise_for_status()
      data = r.json()
      if data.get("error"):
          raise RuntimeError(f"Kraken error: {data['error']}")
      res = data.get("result", {})
      key = next((k for k in res.keys() if k.lower() == pair.lower()), None)
      ...
      rows = res.get(key, [])
      if not rows:
          raise RuntimeError("No OHLC rows returned from Kraken.")
      out = []
      for row in rows[-n:]:
          ts = int(row[0])
          out.append({"timeOpen": _iso(ts), "open": float(row[1]), ...})
      out.sort(key=lambda d: d["timeOpen"])
      return out
  \<close>
  There is no guard on \<open>n\<close>, no \<open>try\<close> around the request, no check that the
  payload is a dictionary, and no \<open>try\<close> in the loop.
\<close>

definition ALLOWED :: "(string \<times> string) list" where
  "ALLOWED = [(''SOL'', ''SOLUSD''), (''SOLUSD'', ''SOLUSD''), (''SOLUSDT'', ''SOLUSDT'')]"

definition norm_token :: "string \<Rightarrow> error + string" where
  "norm_token tok =
     (let t = filter (\<lambda>c. c \<noteq> CHR ''-'') (upper tok) in
      case map_of ALLOWED t of
        None \<Rightarrow> Inl (ValueError ''Only Solana supported. Use SOL, SOLUSD or SOLUSDT.'')
      | Some pair \<Rightarrow> Inr pair)"

definition iso :: "int \<Rightarrow> error + string" where
  "iso sec = utc_isoformat sec"

definition sol_candle :: "python \<Rightarrow> json \<Rightarrow> error + string candle" where
  "sol_candle Y row =
     ebind (ebind (getitem row 0) (py_int Y)) (\<lambda>ts.
     ebind (iso ts) (\<lambda>t.
     ebind (ebind (getitem row 1) (py_float Y)) (\<lambda>op.
     ebind (ebind (getitem row 2) (py_float Y)) (\<lambda>hi.
     ebind (ebind (getitem row 3) (py_float Y)) (\<lambda>lo.
     ebind (ebind (getitem row 4) (py_float Y)) (\<lambda>cl.
     ebind (ebind (getitem row 6) (py_float Y)) (\<lambda>vol.
     Inr \<lparr>timeOpen = t, open_price = op, high = hi, low = lo, close = cl,
          volume = Some vol\<rparr>)))))))"

text \<open>The loop of \<open>sol_fetch\<close> has no \<open>try\<close>: the first exception ends the call.\<close>

fun sol_loop :: "python \<Rightarrow> json list \<Rightarrow> error + string candle list" where
  "sol_loop Y [] = Inr []"
| "sol_loop Y (row # rows) =
     (case sol_candle Y row of
        Inl e \<Rightarrow> Inl e
      | Inr c \<Rightarrow> (case sol_loop Y rows of Inl e \<Rightarrow> Inl e | Inr cs \<Rightarrow> Inr (c # cs)))"

text \<open>
  The rows the loop of \<open>sol_fetch.get_recent_candles\<close> runs over (lines 26 to 50
  of the source): the request, the navigation of the payload and the slice.
\<close>

definition sol_selected_rows :: "kraken_api \<Rightarrow> string \<Rightarrow> int \<Rightarrow> int \<Rightarrow> error + json list" where
  "sol_selected_rows K tok n interval =
     ebind (norm_token tok) (\<lambda>pair.
     ebind (request_json K pair interval) (\<lambda>data.
     ebind (dict_get data ''error'' JNull) (\<lambda>err.
     if truthy err then Inl (RuntimeError ''Kraken error'')
     else
       ebind (dict_get data ''result'' (JDict [])) (\<lambda>res.
       ebind (dict_keys res) (\<lambda>ks.
       ebind (fallback_key (next_key pair ks) ks) (\<lambda>key.
       ebind (dict_get res key (JList [])) (\<lambda>rows.
       if \<not> truthy rows then Inl (RuntimeError ''No OHLC rows returned from Kraken.'')
       else slice_last rows n)))))))"

definition sol_get_recent_candles ::
  "python \<Rightarrow> kraken_api \<Rightarrow> string \<Rightarrow> int \<Rightarrow> int \<Rightarrow> error + string candle list" where
  "sol_get_recent_candles Y K tok n interval =
     ebind (sol_selected_rows K tok n interval) (\<lambda>sel.
     ebind (sol_loop Y sel) (\<lambda>out.
     Inr (sort_key timeOpen out)))"

section \<open>A concrete library and sample data\<close>

text \<open>
  Two sorts that meet \<open>argsort_spec\<close>: a stable one, and one that returns equal keys
  in the reverse of their input order.
\<close>

definition stable_argsort :: "int list \<Rightarrow> nat list" where
  "stable_argsort ks = map snd (sort_key fst (zip ks [0..<length ks]))"


text \<open>
  A parser for the timestamps the fetchers write, \<open>YYYY-MM-DDTHH:MM:SS\<close> followed by
  nothing (naive), \<open>Z\<close> or an offset \<open>+HH:MM\<close> or \<open>-HH:MM\<close>.
\<close>

definition digit_val :: "char \<Rightarrow> int option" where
  "digit_val c = (if CHR ''0'' \<le> c \<and> c \<le> CHR ''9'' then Some (of_char c - 48) else None)"

fun number_of :: "int \<Rightarrow> string \<Rightarrow> int option" where
  "number_of acc [] = Some acc"
| "number_of acc (c # cs) =
     (case digit_val c of None \<Rightarrow> None | Some d \<Rightarrow> number_of (10 * acc + d) cs)"

definition field :: "nat \<Rightarrow> nat \<Rightarrow> string \<Rightarrow> int option" where
  "field pos len s = (if length s < pos + len then None else number_of 0 (take len (drop pos s)))"

definition parse_zone :: "string \<Rightarrow> int option option" where
  "parse_zone z =
     (if z = [] then Some None
      else if z = ''Z'' then Some (Some 0)
      else if length z = 6 \<and> z ! 0 \<in> {CHR ''+'', CHR ''-''} \<and> z ! 3 = CHR '':'' then
        (case (field 1 2 z, field 4 2 z) of
           (Some h, Some m) \<Rightarrow>
             Some (Some ((if z ! 0 = CHR ''-'' then - 1 else 1) * (h * 3600 + m * 60)))
         | _ \<Rightarrow> None)
      else None)"

definition parse_iso :: "string \<Rightarrow> timestamp option" where
  "parse_iso s =
     (if 19 \<le> length s \<and> s ! 4 = CHR ''-'' \<and> s ! 7 = CHR ''-'' \<and> s ! 10 = CHR ''T''
         \<and> s ! 13 = CHR '':'' \<and> s ! 16 = CHR '':'' then
        (case (field 0 4 s, field 5 2 s, field 8 2 s, field 11 2 s, field 14 2 s, field 17 2 s,
               parse_zone (drop 19 s)) of
           (Some y, Some m, Some d, Some h, Some mi, Some se, Some z) \<Rightarrow>
             Some \<lparr>ts_year = y, ts_month = m, ts_day = d, ts_hour = h, ts_minute = mi,
                   ts_second = se, ts_nanosecond = 0, utcoffset = z\<rparr>
         | _ \<Rightarrow> None)
      else None)"

definition pandas_stable :: pandas where
  "pandas_stable = \<lparr>argsort = stable_argsort, parse_datetime = parse_iso\<rparr>"


definition candle_at :: "string \<Rightarrow> real \<Rightarrow> string candle" where
  "candle_at t c = \<lparr>timeOpen = t, open_price = c, high = c + 1, low = c - 1, close = c,
                     volume = Some 10\<rparr>"

definition unsorted_candles :: "string candle list" where
  "unsorted_candles =
     [candle_at ''2025-01-03T00:00:00Z'' 1, candle_at ''2025-01-01T00:00:00Z'' 2,
      candle_at ''2025-01-02T00:00:00Z'' 3]"


definition mixed_zone_candles :: "string candle list" where
  "mixed_zone_candles = [candle_at ''2025-01-01T00:00:00'' 2, candle_at ''2025-01-01T00:00:00Z'' 3]"

definition two_digits :: "nat \<Rightarrow> string" where
  "two_digits k = [char_of (48 + k div 10), char_of (48 + k mod 10)]"

definition daily_candles :: "nat \<Rightarrow> string candle list" where
  "daily_candles n =
     map (\<lambda>i. \<lparr>timeOpen = ''2025-01-'' @ two_digits (Suc i) @ ''T00:00:00Z'',
                open_price = 100 + real i, high = 105 + real i, low = 95 + real i,
                close = 102 + real i, volume = Some 1000\<rparr>)
       [0..<n]"

definition daily_series :: "nat \<Rightarrow> row list" where
  "daily_series n =
     map (\<lambda>i. \<lparr>timeOpen = Stamp \<lparr>ts_year = 2025, ts_month = 1, ts_day = 1 + int i, ts_hour = 0,
                                 ts_minute = 0, ts_second = 0, ts_nanosecond = 0,
                                 utcoffset = Some 0\<rparr>,
                open_price = 100 + real i, high = 105 + real i, low = 95 + real i,
                close = 102 + real i, volume = Some 1000, month = 1\<rparr>)
       [0..<n]"

text \<open>Midnight UTC of a day of January 2025, as an anchor.\<close>

definition day_2025_01 :: "int \<Rightarrow> int" where
  "day_2025_01 d = instant_ns \<lparr>ts_year = 2025, ts_month = 1, ts_day = d, ts_hour = 0, ts_minute = 0,
      ts_second = 0, ts_nanosecond = 0, utcoffset = Some 0\<rparr>"

text \<open>
  Readers of plain decimal literals, and the payload of the repository's unit test
  (\<open>tests/test_kraken_unit.py\<close>): one OHLC row for \<open>SOLUSD\<close>.
\<close>

definition decimal_of_str :: "string \<Rightarrow> real option" where
  "decimal_of_str s =
     (let a = takeWhile (\<lambda>c. c \<noteq> CHR ''.'') s;
          b = drop 1 (dropWhile (\<lambda>c. c \<noteq> CHR ''.'') s)
      in if a = [] \<and> b = [] then None
         else case (number_of 0 a, number_of 0 b) of
           (Some x, Some y) \<Rightarrow> Some (real_of_int x + real_of_int y / 10 ^ length b)
         | _ \<Rightarrow> None)"

definition decimal_python :: python where
  "decimal_python = \<lparr>int_of_str = (\<lambda>s. if s = [] then None else number_of 0 s),
              float_of_str = decimal_of_str\<rparr>"

definition sample_payload :: json where
  "sample_payload =
     JDict [(''error'', JList []),
            (''result'',
             JDict [(''SOLUSD'',
                     JList [JList [JInt 1710000000, JStr ''150.1'', JStr ''151.0'', JStr ''149.8'',
                                   JStr ''150.6'', JStr ''150.5'', JStr ''123.45'', JInt 1000]]),
                    (''last'', JInt 1710000300)])]"

definition sample_api :: kraken_api where
  "sample_api pair interval = Response sample_payload"

definition sample_candle :: "string candle" where
  "sample_candle = \<lparr>timeOpen = ''2024-03-09T16:00:00Z'', open_price = 1501 / 10, high = 151,
                     low = 749 / 5, close = 753 / 5, volume = Some (2469 / 20)\<rparr>"

definition sample_row :: json where
  "sample_row = JList [JInt 1710000000, JStr ''150.1'', JStr ''151.0'', JStr ''149.8'',
                       JStr ''150.6'', JStr ''150.5'', JStr ''123.45'', JInt 1000]"

section \<open>Lemmas: sorting and normalisation\<close>

lemma zip_upt_nth: "(k, i) \<in> set (zip ks [0..<length ks]) \<Longrightarrow> ks ! i = k"
  by (auto simp: set_zip)

lemma argsort_by_pairs:
  assumes "mset ps = mset (zip ks [0..<length ks])" and "sorted (map fst ps)"
  shows "mset (map snd ps) = mset [0..<length ks] \<and> sorted (map (\<lambda>i. ks ! i) (map snd ps))"
proof
  have z: "map snd (zip ks [0..<length ks]) = [0..<length ks]"
    by (simp add: map_snd_zip)
  have "mset (map snd ps) = image_mset snd (mset ps)" by (simp only: mset_map)
  also have "\<dots> = mset (map snd (zip ks [0..<length ks]))"
    by (simp only: assms(1) mset_map)
  finally show "mset (map snd ps) = mset [0..<length ks]" by (simp only: z)
  have "set ps = set (zip ks [0..<length ks])"
    using assms(1) by (metis set_mset_mset)
  then have "\<forall>p \<in> set ps. ks ! snd p = fst p"
    using zip_upt_nth [of _ _ ks] by auto
  then have "map (\<lambda>i. ks ! i) (map snd ps) = map fst ps"
    by (induction ps) simp_all
  then show "sorted (map (\<lambda>i. ks ! i) (map snd ps))" using assms(2) by (simp only:)
qed

lemma stable_argsort_spec: "argsort_spec stable_argsort"
  unfolding argsort_spec_def stable_argsort_def
  by (intro allI argsort_by_pairs) simp_all


lemma argsort_indices:
  assumes "argsort_spec f"
  shows "set (f ks) = {0..<length ks}" and "length (f ks) = length ks"
proof -
  have m: "mset (f ks) = mset [0..<length ks]" using assms by (simp add: argsort_spec_def)
  show "set (f ks) = {0..<length ks}" using m by (metis set_mset_mset set_upt)
  show "length (f ks) = length ks" using m by (metis size_mset length_upt diff_zero)
qed

lemma take_rows_mset:
  assumes "argsort_spec f" and "length ks = length xs"
  shows "mset (take_rows (f ks) xs) = mset xs"
proof -
  have "mset (take_rows (f ks) xs) = image_mset (\<lambda>i. xs ! i) (mset (f ks))"
    by (simp add: take_rows_def)
  also have "\<dots> = image_mset (\<lambda>i. xs ! i) (mset [0..<length xs])"
    using assms by (simp add: argsort_spec_def)
  also have "\<dots> = mset (map (\<lambda>i. xs ! i) [0..<length xs])" by simp
  also have "\<dots> = mset xs" by (simp add: map_nth)
  finally show ?thesis .
qed

lemma take_rows_length:
  "argsort_spec f \<Longrightarrow> length (take_rows (f ks) xs) = length ks"
  by (simp add: take_rows_def argsort_indices)

lemma take_rows_sorted:
  assumes "argsort_spec f"
  shows "sorted (map k (take_rows (f (map k xs)) xs))"
proof -
  let ?ks = "map k xs"
  have "\<forall>i \<in> set (f ?ks). i < length xs"
    using argsort_indices(1) [OF assms, of ?ks] by simp
  then have "map k (take_rows (f ?ks) xs) = map (\<lambda>i. ?ks ! i) (f ?ks)"
    by (simp add: take_rows_def)
  then show ?thesis using assms by (simp add: argsort_spec_def)
qed

lemma those_map_Some:
  "those (map f xs) = Some ys \<Longrightarrow> length ys = length xs \<and> (\<forall>i < length xs. f (xs ! i) = Some (ys ! i))"
proof (induction xs arbitrary: ys)
  case Nil
  then show ?case by simp
next
  case (Cons x xs)
  then obtain y ys' where y: "f x = Some y" "those (map f xs) = Some ys'" "ys = y # ys'"
    by (auto split: option.splits)
  with Cons.IH [of ys'] show ?case by (auto simp: nth_Cons split: nat.splits)
qed

lemma cell_timestamp_valid: "cell_timestamp P c = Some t \<Longrightarrow> valid_timestamp t"
  by (auto simp: cell_timestamp_def split: option.splits if_splits time_cell.splits)

lemma to_datetime_Inr:
  assumes "to_datetime P cells = Inr ts"
  shows "length ts = length cells"
    and "\<forall>i < length cells. cell_timestamp P (cells ! i) = Some (ts ! i)"
    and "\<forall>t \<in> set ts. valid_timestamp t"
    and "\<forall>t \<in> set ts. utcoffset t = utcoffset (hd ts)"
proof -
  from assms have th: "those (map (cell_timestamp P) cells) = Some ts"
    and u: "list_all (\<lambda>t. utcoffset t = utcoffset (hd ts)) ts"
    by (auto simp: to_datetime_def split: option.splits if_splits)
  from those_map_Some [OF th] show l: "length ts = length cells"
    and n: "\<forall>i < length cells. cell_timestamp P (cells ! i) = Some (ts ! i)" by auto
  show "\<forall>t \<in> set ts. valid_timestamp t"
    using l n cell_timestamp_valid by (metis in_set_conv_nth)
  show "\<forall>t \<in> set ts. utcoffset t = utcoffset (hd ts)"
    using u by (simp add: list_all_iff)
qed

lemma ensure_time_and_sort_Inr:
  assumes "snd (ensure_time_and_sort P df) = Inr out"
  obtains ts where "df \<noteq> []" "to_datetime P (map timeOpen df) = Inr ts"
    and "fst (ensure_time_and_sort P df) = map (\<lambda>(r, t). r\<lparr>timeOpen := Stamp t\<rparr>) (zip df ts)"
    and "out = map (\<lambda>(r, t). \<lparr>timeOpen = Stamp t, open_price = open_price r,
                                    high = high r, low = low r, close = close r,
                                    volume = volume r, month = ts_month t\<rparr>)
                 (take_rows (argsort P (map instant_ns ts)) (zip df ts))"
  using assms
  by (auto simp: ensure_time_and_sort_def Let_def split: if_splits sum.splits)

lemma valid_month: "valid_timestamp t \<Longrightarrow> 1 \<le> ts_month t \<and> ts_month t \<le> 12"
  by (simp add: valid_timestamp_def)

lemma ensure_time_and_sort_props:
  assumes spec: "argsort_spec (argsort P)"
    and run: "snd (ensure_time_and_sort P df) = Inr out"
  shows "\<exists>ts. to_datetime P (map timeOpen df) = Inr ts \<and>
           mset (map (\<lambda>r. (timeOpen r, ohlcv r)) out) = mset (zip (map Stamp ts) (map ohlcv df))"
    and "sorted (map (stamp_key \<circ> timeOpen) out)"
    and "length out = length df"
    and "\<forall>r \<in> set out. \<exists>t. timeOpen r = Stamp t \<and> month r = ts_month t \<and> 1 \<le> month r \<and> month r \<le> 12"
proof -
  from run obtain ts where ts: "to_datetime P (map timeOpen df) = Inr ts"
    and out: "out = map (\<lambda>(r, t). \<lparr>timeOpen = Stamp t, open_price = open_price r,
                                    high = high r, low = low r, close = close r,
                                    volume = volume r, month = ts_month t\<rparr>)
                 (take_rows (argsort P (map instant_ns ts)) (zip df ts))"
    by (rule ensure_time_and_sort_Inr)
  let ?stamped = "zip df ts"
  let ?ordered = "take_rows (argsort P (map instant_ns ts)) ?stamped"
  have len: "length ts = length df" using to_datetime_Inr(1) [OF ts] by simp
  have keys: "map instant_ns ts = map (instant_ns \<circ> snd) ?stamped"
    using len by (simp add: map_snd_zip flip: map_map)
  have perm: "mset ?ordered = mset ?stamped"
    using take_rows_mset [OF spec, of "map instant_ns ts" ?stamped] len by simp
  have "mset (map (\<lambda>r. (timeOpen r, ohlcv r)) out)
      = image_mset (\<lambda>(r, t). (Stamp t, ohlcv r)) (mset ?ordered)"
    by (simp add: out ohlcv_def case_prod_unfold comp_def flip: mset_map)
  also have "\<dots> = mset (map (\<lambda>(r, t). (Stamp t, ohlcv r)) ?stamped)"
    by (simp only: perm mset_map)
  also have "map (\<lambda>(r, t). (Stamp t, ohlcv r)) ?stamped = zip (map Stamp ts) (map ohlcv df)"
    using len by (intro nth_equalityI) simp_all
  finally show "\<exists>ts. to_datetime P (map timeOpen df) = Inr ts \<and>
           mset (map (\<lambda>r. (timeOpen r, ohlcv r)) out) = mset (zip (map Stamp ts) (map ohlcv df))"
    using ts by blast
  have "map (stamp_key \<circ> timeOpen) out = map (instant_ns \<circ> snd) ?ordered"
    by (simp add: out stamp_key_def case_prod_unfold comp_def)
  moreover have "sorted (map (instant_ns \<circ> snd) ?ordered)"
    unfolding keys by (rule take_rows_sorted [OF spec])
  ultimately show "sorted (map (stamp_key \<circ> timeOpen) out)" by simp
  show "length out = length df"
    using take_rows_length [OF spec, of "map instant_ns ts" ?stamped] len by (simp add: out)
  have "set ?ordered = set ?stamped" using perm by (metis set_mset_mset)
  then have "\<forall>p \<in> set ?ordered. valid_timestamp (snd p)"
    using to_datetime_Inr(3) [OF ts] by (auto dest: set_zip_rightD)
  then show "\<forall>r \<in> set out. \<exists>t. timeOpen r = Stamp t \<and> month r = ts_month t \<and> 1 \<le> month r \<and> month r \<le> 12"
    by (auto simp: out dest!: valid_month)
qed

section \<open>Lemmas: feature building\<close>

lemma shift_nth:
  "shift k xs ! i = (if i < k then None else Some (xs ! (i - k)))" if "i < length xs"
proof (cases "i < k")
  case True
  with that show ?thesis by (simp add: shift_def nth_append)
next
  case False
  with that have "i - k < length xs - k" "min k (length xs) = k" by auto
  with False that show ?thesis by (simp add: shift_def nth_append)
qed

lemma window_has_current:
  assumes "i < length xs" and "0 < w"
  shows "xs ! i \<in> set (drop (Suc i - w) (take (Suc i) xs))"
proof -
  let ?win = "drop (Suc i - w) (take (Suc i) xs)"
  have j: "i - (Suc i - w) < length ?win" using assms by auto
  have "?win ! (i - (Suc i - w)) = xs ! i" using assms by (simp add: nth_drop)
  with j show ?thesis by (metis nth_mem)
qed

lemma sma_nth_present:
  assumes "i < length xs" and "0 < w" and "xs ! i \<noteq> None"
  shows "sma xs w ! i \<noteq> None"
proof -
  let ?obs = "List.map_filter (\<lambda>v. v) (drop (Suc i - w) (take (Suc i) xs))"
  from assms(3) obtain v where v: "xs ! i = Some v" by auto
  have "Some v \<in> set (drop (Suc i - w) (take (Suc i) xs))"
    using window_has_current [OF assms(1,2)] v by simp
  then have "v \<in> set ?obs" by (force simp: map_filter_def)
  then have "?obs \<noteq> []" "\<not> length ?obs < 1" by (auto simp: Suc_le_eq[symmetric] dest: length_pos_if_in_set)
  then show ?thesis using assms(1) by (simp add: sma_def rolling_mean_def Let_def)
qed

lemma complete_row:
  "list_all (\<lambda>name. feature_cell r name \<noteq> None) FINAL_FEATURES \<longleftrightarrow>
     open_sma3 r \<noteq> None \<and> open_sma7 r \<noteq> None \<and> high_lag1 r \<noteq> None \<and> high_lag2 r \<noteq> None \<and>
     low_lag1 r \<noteq> None \<and> low_lag2 r \<noteq> None \<and> close_lag3 r \<noteq> None \<and>
     volume r \<noteq> None \<and> volume_sma21 r \<noteq> None"
  by (simp add: FINAL_FEATURES_def feature_cell_def)

lemma feature_row_complete:
  assumes "i < length df" and "\<forall>r \<in> set df. volume r \<noteq> None"
  shows "list_all (\<lambda>name. feature_cell (feature_row df i) name \<noteq> None) FINAL_FEATURES \<longleftrightarrow> 3 \<le> i"
proof -
  have v: "map volume df ! i \<noteq> None" using assms by simp
  have s: "sma (map (Some \<circ> open_price) df) 3 ! i \<noteq> None"
    "sma (map (Some \<circ> open_price) df) 7 ! i \<noteq> None"
    "sma (map volume df) 21 ! i \<noteq> None"
    using assms(1) v by (simp_all add: sma_nth_present)
  show ?thesis
    unfolding complete_row using assms(1) s v
    by (auto simp: feature_row_def shift_nth)
qed

lemma filter_upt_from: "filter (\<lambda>i. k \<le> i) [0..<n] = [k..<n]"
  by (induction n) (auto simp: not_less_eq_eq)

lemma dropna_add_features:
  assumes "\<forall>r \<in> set df. volume r \<noteq> None"
  shows "dropna FINAL_FEATURES (add_features df) = map (feature_row df) [3..<length df]"
proof -
  have "filter ((\<lambda>r. list_all (\<lambda>name. feature_cell r name \<noteq> None) FINAL_FEATURES) \<circ> feature_row df)
          [0..<length df] = filter (\<lambda>i. 3 \<le> i) [0..<length df]"
    by (rule filter_cong [OF refl])
      (simp only: o_apply set_upt atLeastLessThan_iff feature_row_complete [OF _ assms])
  then show ?thesis
    by (simp add: dropna_def add_features_def filter_map filter_upt_from)
qed

lemma cell_timestamp_Stamp: "valid_timestamp t \<Longrightarrow> cell_timestamp P (Stamp t) = Some t"
  by (simp add: cell_timestamp_def)

lemma those_all_Some:
  "\<forall>x \<in> set xs. f x \<noteq> None \<Longrightarrow> those (map f xs) = Some (map (the \<circ> f) xs)"
  by (induction xs) auto

lemma to_datetime_succeeds:
  assumes "\<forall>c \<in> set cells. map_option utcoffset (cell_timestamp P c) = Some z"
  shows "to_datetime P cells = Inr (map (the \<circ> cell_timestamp P) cells)"
proof -
  let ?ts = "map (the \<circ> cell_timestamp P) cells"
  have some: "\<forall>c \<in> set cells. cell_timestamp P c \<noteq> None" using assms by auto
  have off: "\<forall>t \<in> set ?ts. utcoffset t = z" using assms by auto
  have "list_all (\<lambda>t. utcoffset t = utcoffset (hd ?ts)) ?ts"
  proof (cases cells)
    case Nil
    then show ?thesis by simp
  next
    case (Cons c cs)
    then have "hd ?ts \<in> set ?ts" by simp
    with off have "utcoffset (hd ?ts) = z" by blast
    with off show ?thesis by (simp add: list_all_iff)
  qed
  then show ?thesis
    by (simp add: to_datetime_def those_all_Some [OF some])
qed

lemma ensure_time_and_sort_succeeds:
  assumes "df \<noteq> []"
    and "\<forall>r \<in> set df. map_option utcoffset (cell_timestamp P (timeOpen r)) = Some z"
  shows "\<exists>out. snd (ensure_time_and_sort P df) = Inr out"
proof -
  have "\<forall>c \<in> set (map timeOpen df). map_option utcoffset (cell_timestamp P c) = Some z"
    using assms(2) by simp
  from to_datetime_succeeds [OF this] show ?thesis
    using assms(1) by (simp add: ensure_time_and_sort_def Let_def)
qed

lemma ohlcv_volume: "ohlcv r' = ohlcv r \<Longrightarrow> volume r = volume r'"
  by (simp add: ohlcv_def)

lemma ensure_time_and_sort_volume:
  assumes "argsort_spec (argsort P)"
    and "snd (ensure_time_and_sort P df) = Inr out"
    and "\<forall>r \<in> set df. volume r \<noteq> None"
  shows "\<forall>r \<in> set out. volume r \<noteq> None"
proof
  fix r assume r: "r \<in> set out"
  from ensure_time_and_sort_props(1) [OF assms(1,2)] obtain ts where
    m: "mset (map (\<lambda>r. (timeOpen r, ohlcv r)) out) = mset (zip (map Stamp ts) (map ohlcv df))"
    by blast
  have s: "set (map (\<lambda>r. (timeOpen r, ohlcv r)) out) = set (zip (map Stamp ts) (map ohlcv df))"
    by (rule mset_eq_setD [OF m])
  have "(timeOpen r, ohlcv r) \<in> set (map (\<lambda>r. (timeOpen r, ohlcv r)) out)"
    using r by (rule imageI [of r "set out" "\<lambda>r. (timeOpen r, ohlcv r)", unfolded set_map [symmetric]])
  then have "(timeOpen r, ohlcv r) \<in> set (zip (map Stamp ts) (map ohlcv df))"
    by (simp only: s)
  then have "ohlcv r \<in> set (map ohlcv df)" by (rule set_zip_rightD)
  then obtain r' where r': "r' \<in> set df" "ohlcv r' = ohlcv r"
    unfolding set_map by (elim imageE) simp
  from r'(1) assms(3) have "volume r' \<noteq> None" by blast
  then show "volume r \<noteq> None" by (simp add: ohlcv_volume [OF r'(2)])
qed

lemma prepare_features_rows:
  assumes "argsort_spec (argsort P)"
    and "df \<noteq> []"
    and "\<forall>r \<in> set df. map_option utcoffset (cell_timestamp P (timeOpen r)) = Some z"
    and "\<forall>r \<in> set df. volume r \<noteq> None"
  shows "\<exists>X. prepare_features P df = Inr X \<and> length X = length df - 3"
proof -
  from ensure_time_and_sort_succeeds [OF assms(2,3)] obtain out
    where out: "snd (ensure_time_and_sort P df) = Inr out" by blast
  have len: "length out = length df" by (rule ensure_time_and_sort_props(3) [OF assms(1) out])
  have vol: "\<forall>r \<in> set out. volume r \<noteq> None"
    by (rule ensure_time_and_sort_volume [OF assms(1) out assms(4)])
  have "prepare_features P df =
          Inr (map (select_columns FINAL_FEATURES) (map (feature_row out) [3..<length out]))"
    using assms(2) out by (simp add: prepare_features_def build_features_from_ohlcv_def
        dropna_add_features [OF vol])
  then show ?thesis using len by simp
qed

lemma prepare_features_complete:
  assumes "prepare_features P df = Inr X" and "x \<in> set X"
  shows "map fst x = FINAL_FEATURES \<and> list_all (\<lambda>(name, v). v \<noteq> None) x"
proof -
  from assms(1) obtain df_feat where
    X: "X = map (select_columns FINAL_FEATURES) (dropna FINAL_FEATURES df_feat)"
    by (auto simp: prepare_features_def split: sum.splits)
  with assms(2) obtain r where r0: "r \<in> set (dropna FINAL_FEATURES df_feat)"
    and x: "x = select_columns FINAL_FEATURES r" by auto
  from r0 have r: "list_all (\<lambda>name. feature_cell r name \<noteq> None) FINAL_FEATURES"
    by (simp add: dropna_def)
  have "map fst x = FINAL_FEATURES" unfolding x select_columns_def by (simp add: comp_def)
  moreover have "list_all (\<lambda>(name, v). v \<noteq> None) x"
    using r unfolding x select_columns_def by (simp add: list_all_iff)
  ultimately show ?thesis by simp
qed

section \<open>Lemmas: the concrete library\<close>

lemma pandas_stable_spec: "argsort_spec (argsort pandas_stable)"
  by (simp add: pandas_stable_def stable_argsort_spec)


lemma unsorted_candles_run:
  "\<exists>out. snd (ensure_time_and_sort pandas_stable (DataFrame unsorted_candles)) = Inr out"
proof (rule ensure_time_and_sort_succeeds)
  show "DataFrame unsorted_candles \<noteq> []" by (simp add: DataFrame_def unsorted_candles_def)
  show "\<forall>r \<in> set (DataFrame unsorted_candles).
          map_option utcoffset (cell_timestamp pandas_stable (timeOpen r)) = Some (Some 0)"
    by code_simp
qed

lemma daily_series_ok:
  "daily_series (Suc n) \<noteq> []"
  "length (daily_series n) = n"
  "\<forall>r \<in> set (daily_series n). volume r \<noteq> None"
  by (simp_all add: daily_series_def)

lemma daily_series_parses:
  assumes "n \<le> 28"
  shows "\<forall>r \<in> set (daily_series n).
    map_option utcoffset (cell_timestamp pandas_stable (timeOpen r)) = Some (Some 0)"
  using assms
  by (auto simp: daily_series_def cell_timestamp_def valid_timestamp_def days_in_month_def)

section \<open>Lemmas: the endpoints\<close>

lemma ensure_time_and_sort_stamps:
  assumes spec: "argsort_spec (argsort P)"
    and run: "snd (ensure_time_and_sort P df) = Inr out"
  shows "\<exists>z. \<forall>r \<in> set out. \<exists>t. timeOpen r = Stamp t \<and> valid_timestamp t \<and> utcoffset t = z"
proof -
  from run obtain ts where ts: "to_datetime P (map timeOpen df) = Inr ts"
    and out: "out = map (\<lambda>(r, t). \<lparr>timeOpen = Stamp t, open_price = open_price r,
                                    high = high r, low = low r, close = close r,
                                    volume = volume r, month = ts_month t\<rparr>)
                 (take_rows (argsort P (map instant_ns ts)) (zip df ts))"
    by (rule ensure_time_and_sort_Inr)
  let ?stamped = "zip df ts"
  let ?ordered = "take_rows (argsort P (map instant_ns ts)) ?stamped"
  have len: "length ts = length df" using to_datetime_Inr(1) [OF ts] by simp
  have "mset ?ordered = mset ?stamped"
    using take_rows_mset [OF spec, of "map instant_ns ts" ?stamped] len by simp
  then have "set ?ordered = set ?stamped" by (rule mset_eq_setD)
  then have "\<forall>p \<in> set ?ordered. valid_timestamp (snd p) \<and> utcoffset (snd p) = utcoffset (hd ts)"
    using to_datetime_Inr(3,4) [OF ts] by (auto dest: set_zip_rightD)
  then have "\<forall>r \<in> set out. \<exists>t. timeOpen r = Stamp t \<and> valid_timestamp t \<and> utcoffset t = utcoffset (hd ts)"
    by (auto simp: out)
  then show ?thesis by blast
qed

lemma stamps_parse:
  assumes "\<forall>r \<in> set out. \<exists>t. timeOpen r = Stamp t \<and> valid_timestamp t \<and> utcoffset t = z"
  shows "\<forall>r \<in> set out. map_option utcoffset (cell_timestamp P (timeOpen r)) = Some z"
  using assms by (auto simp: cell_timestamp_Stamp)

lemma lower_delta: "lower ''delta'' = ''delta''"
  by (simp add: lower_def lower_char_def)

lemma DataFrame_props:
  "length (DataFrame cs) = length cs"
  "map ohlcv (DataFrame cs) = map ohlcv cs"
  "map timeOpen (DataFrame cs) = map (Str \<circ> timeOpen) cs"
  by (simp_all add: DataFrame_def ohlcv_def comp_def)

lemma DataFrame_volume:
  "\<forall>c \<in> set cs. volume c \<noteq> None \<Longrightarrow> \<forall>r \<in> set (DataFrame cs). volume r \<noteq> None"
  by (auto simp: DataFrame_def)

lemma DataFrame_parses:
  "\<forall>c \<in> set cs. map_option utcoffset (cell_timestamp P (Str (timeOpen c))) = Some z \<Longrightarrow>
   \<forall>r \<in> set (DataFrame cs). map_option utcoffset (cell_timestamp P (timeOpen r)) = Some z"
  by (auto simp: DataFrame_def)

lemma predict_on_frame_delta:
  assumes "prepare_features P df = Inr X" and "X \<noteq> []"
  shows "predict_on_frame P (\<lambda>x. Inr (Finite (1/2))) ''delta'' df =
           Inr \<lparr>predicted_high_next_day = Finite (high (last df) + 1/2), target_mode = ''delta'',
                last_known_high = Some (Finite (high (last df))), features_used = FINAL_FEATURES,
                feature_vector_tail = last X\<rparr>"
  using assms by (simp add: predict_on_frame_def invert_prediction_def Let_def)

lemma daily_candles_25:
  "21 \<le> length (daily_candles 25)"
  "\<forall>c \<in> set (daily_candles 25). volume c \<noteq> None"
  by (simp_all add: daily_candles_def)

lemma daily_candles_25_parse:
  "\<forall>c \<in> set (daily_candles 25).
     map_option utcoffset (cell_timestamp pandas_stable (Str (timeOpen c))) = Some (Some 0)"
  by code_simp

lemma daily_candles_25_run:
  "snd (ensure_time_and_sort pandas_stable (DataFrame (daily_candles 25))) = Inr (daily_series 25)"
  by code_simp

lemma daily_series_25_last: "high (last (daily_series 25)) = 129"
  by (simp add: daily_series_def last_map)

lemma loc_mask:
  "map fst (filter snd (zip df (map (\<lambda>t. t \<le> a) (map k df)))) = filter (\<lambda>r. k r \<le> a) df"
  by (induction df) simp_all

lemma mask_any:
  "list_ex (\<lambda>b. b) (map (\<lambda>t. t \<le> a) (map k df)) \<longleftrightarrow> filter (\<lambda>r. k r \<le> a) df \<noteq> []"
  by (induction df) simp_all

lemma filter_sorted_takeWhile:
  "sorted (map k xs) \<Longrightarrow> filter (\<lambda>x. k x \<le> (a::int)) xs = takeWhile (\<lambda>x. k x \<le> a) xs"
proof (induction xs)
  case Nil
  then show ?case by simp
next
  case (Cons x xs)
  show ?case
  proof (cases "k x \<le> a")
    case True
    with Cons show ?thesis by simp
  next
    case False
    with Cons.prems have "\<forall>y \<in> set xs. \<not> k y \<le> a" by auto
    with False show ?thesis by (simp add: filter_empty_conv)
  qed
qed

lemma takeWhile_maximal:
  assumes "prefix p xs" and "\<forall>x \<in> set p. Q x"
  shows "prefix p (takeWhile Q xs)"
proof -
  from assms(1) obtain rest where "xs = p @ rest" by (auto simp: prefix_def)
  then show ?thesis using assms(2) by (simp add: takeWhile_append2)
qed

lemma to_datetime_utc_stamps:
  assumes "\<forall>r \<in> set df. \<exists>t. timeOpen r = Stamp t \<and> valid_timestamp t \<and> utcoffset t = z"
  shows "to_datetime_utc P (map timeOpen df) = Inr (map (stamp_key \<circ> timeOpen) df)"
proof -
  have some: "\<forall>c \<in> set (map timeOpen df). cell_timestamp P c \<noteq> None"
    using assms by (auto simp: cell_timestamp_Stamp)
  have "map instant_ns (map (the \<circ> cell_timestamp P) (map timeOpen df)) = map (stamp_key \<circ> timeOpen) df"
    using assms by (auto simp: cell_timestamp_Stamp stamp_key_def)
  moreover have "those (map (cell_timestamp P) (map timeOpen df)) =
      Some (map (the \<circ> cell_timestamp P) (map timeOpen df))"
    by (rule those_all_Some [OF some])
  ultimately show ?thesis unfolding to_datetime_utc_def by (simp only: option.case)
qed

lemma cut_to_anchor_filter:
  assumes "\<forall>r \<in> set df. \<exists>t. timeOpen r = Stamp t \<and> valid_timestamp t \<and> utcoffset t = z"
  shows "cut_to_anchor P df anchor =
           (let df_cut = filter (\<lambda>r. stamp_key (timeOpen r) \<le> anchor) df in
            if df_cut = [] then Inl NoDataBeforeAnchorError
            else if length df_cut < 21 then Inl InsufficientHistoryError
            else Inr df_cut)"
  using loc_mask [of df anchor "stamp_key \<circ> timeOpen"] mask_any [of anchor "stamp_key \<circ> timeOpen" df]
  by (simp add: cut_to_anchor_def to_datetime_utc_stamps [OF assms] Let_def)

lemma daily_candles_30_run:
  "snd (ensure_time_and_sort pandas_stable (DataFrame (daily_candles 30))) = Inr (daily_series 30)"
  by code_simp

lemma daily_series_30_windows:
  "takeWhile (\<lambda>r. stamp_key (timeOpen r) \<le> day_2025_01 25) (daily_series 30) = daily_series 25"
  "takeWhile (\<lambda>r. stamp_key (timeOpen r) \<le> day_2025_01 15) (daily_series 30) = daily_series 15"
  "list_all (\<lambda>r. day_2025_01 0 < stamp_key (timeOpen r)) (daily_series 30)"
  by code_simp+

lemma predict_delta_stub_run:
  assumes "argsort_spec (argsort P)"
    and "21 \<le> length candles"
    and "\<forall>c \<in> set candles. map_option utcoffset (cell_timestamp P (Str (timeOpen c))) = Some z"
    and "\<forall>c \<in> set candles. volume c \<noteq> None"
  shows "\<exists>df resp. snd (ensure_time_and_sort P (DataFrame candles)) = Inr df \<and>
           predict P (\<lambda>x. Inr (Finite (1/2))) default_mode candles (Some ''delta'') = Inr resp \<and>
           last_known_high resp = Some (Finite (high (last df))) \<and>
           predicted_high_next_day resp = Finite (high (last df) + 1/2) \<and>
           target_mode resp = ''delta'' \<and>
           features_used resp = FINAL_FEATURES \<and>
           map fst (feature_vector_tail resp) =
             [''close'', ''open'', ''low'', ''close_ema3'', ''low_ema3'', ''open_sma3'',
              ''open_sma7'', ''high_lag1'', ''high_lag2'', ''low_lag1'', ''low_lag2'',
              ''close_lag3'', ''volume'', ''volume_sma21'', ''month''] \<and>
           length (feature_vector_tail resp) = 15 \<and>
           list_all (\<lambda>(name, v). v \<noteq> None) (feature_vector_tail resp)"
proof -
  have ne: "DataFrame candles \<noteq> []" "candles \<noteq> []" using assms(2) by (auto simp: DataFrame_def)
  from ensure_time_and_sort_succeeds [OF ne(1) DataFrame_parses [OF assms(3)]] obtain df
    where df: "snd (ensure_time_and_sort P (DataFrame candles)) = Inr df" by blast
  have len: "length df = length candles"
    using ensure_time_and_sort_props(3) [OF assms(1) df] by (simp add: DataFrame_props)
  then have dfne: "df \<noteq> []" using assms(2) by auto
  from ensure_time_and_sort_stamps [OF assms(1) df] obtain z' where
    "\<forall>r \<in> set df. \<exists>t. timeOpen r = Stamp t \<and> valid_timestamp t \<and> utcoffset t = z'" by blast
  then have parses: "\<forall>r \<in> set df. map_option utcoffset (cell_timestamp P (timeOpen r)) = Some z'"
    by (rule stamps_parse)
  have vol: "\<forall>r \<in> set df. volume r \<noteq> None"
    by (rule ensure_time_and_sort_volume [OF assms(1) df DataFrame_volume [OF assms(4)]])
  from prepare_features_rows [OF assms(1) dfne parses vol] obtain X
    where X: "prepare_features P df = Inr X" "length X = length df - 3" by blast
  then have Xne: "X \<noteq> []" using len assms(2) by auto
  then have "last X \<in> set X" by simp
  from prepare_features_complete [OF X(1) this]
  have tail: "map fst (last X) = FINAL_FEATURES" "list_all (\<lambda>(name, v). v \<noteq> None) (last X)"
    by simp_all
  have l15: "length (last X) = 15"
    using arg_cong [OF tail(1), of length] by (simp add: FINAL_FEATURES_def)
  let ?resp = "\<lparr>predicted_high_next_day = Finite (high (last df) + 1/2), target_mode = ''delta'',
                last_known_high = Some (Finite (high (last df))), features_used = FINAL_FEATURES,
                feature_vector_tail = last X\<rparr>"
  have "predict P (\<lambda>x. Inr (Finite (1/2))) default_mode candles (Some ''delta'') = Inr ?resp"
    using assms(2) ne(2) df predict_on_frame_delta [OF X(1) Xne]
    by (simp add: predict_def resolve_mode_def lower_delta)
  with df tail l15 show ?thesis
    by (intro exI [of _ df] exI [of _ ?resp]) (simp add: FINAL_FEATURES_def)
qed

lemma predict_on_frame_last_high:
  "predict_on_frame P m mode df = Inr r \<Longrightarrow> last_known_high r = Some (Finite (high (last df)))"
  by (auto simp: predict_on_frame_def Let_def split: sum.splits if_splits)

section \<open>Lemmas: the fetchers\<close>

lemma loop_key_next: "loop_key pair ks = next_key pair ks"
  by (induction ks) (simp_all add: next_key_def)

lemma candle_same: "kraken_candle Y row = sol_candle Y row"
  by (simp add: kraken_candle_def sol_candle_def iso_from_epoch_def iso_def)

lemma pair_same:
  "kraken_pair tok = Inr p \<longleftrightarrow> norm_token tok = Inr p"
  by (simp add: kraken_pair_def norm_token_def PAIR_ALIASES_def ALLOWED_def Let_def
      split: option.splits)

lemma sol_loop_Inr: "sol_loop Y sel = Inr out \<Longrightarrow> kraken_loop Y sel = out"
  by (induction sel arbitrary: out) (auto simp: candle_same split: sum.splits)

lemma sol_loop_all:
  "\<forall>row \<in> set sel. \<exists>c. sol_candle Y row = Inr c \<Longrightarrow>
     sol_loop Y sel = Inr (map (projr \<circ> sol_candle Y) sel)"
  by (induction sel) auto

lemma sol_loop_Inl:
  "sol_loop Y sel = Inl e \<Longrightarrow> \<exists>row \<in> set sel. sol_candle Y row = Inl e"
  by (induction sel) (auto split: sum.splits)

lemma kraken_from_sol:
  assumes "0 < n" and "sol_selected_rows K tok n i = Inr sel"
  shows "get_recent_candles_2 Y K tok n i = Inr (sort_key timeOpen (kraken_loop Y sel))"
proof -
  from assms(2) obtain pair data where p: "norm_token tok = Inr pair"
    and d: "request_json K pair i = Inr data"
    by (auto simp: sol_selected_rows_def ebind_def split: sum.splits)
  from assms(2) p d obtain dd where dd: "data = JDict dd"
    by (cases data) (auto simp: sol_selected_rows_def ebind_def dict_get_def split: sum.splits)
  have k: "kraken_pair tok = Inr pair" using p by (simp add: pair_same)
  show ?thesis
    using assms p d
    by (auto simp: get_recent_candles_2_def sol_selected_rows_def ebind_def k dd loop_key_next
        split: sum.splits if_splits)
qed

lemma sol_from_kraken:
  assumes "0 < n" and "get_recent_candles_2 Y K tok n i = Inr xs"
  shows "\<exists>sel. sol_selected_rows K tok n i = Inr sel \<and> xs = sort_key timeOpen (kraken_loop Y sel)"
proof -
  from assms obtain pair where k: "kraken_pair tok = Inr pair"
    by (auto simp: get_recent_candles_2_def ebind_def split: sum.splits)
  then have p: "norm_token tok = Inr pair" by (simp add: pair_same)
  from assms k obtain data where d: "request_json K pair i = Inr data"
    by (auto simp: get_recent_candles_2_def ebind_def split: sum.splits)
  from assms k d obtain dd where dd: "data = JDict dd"
    by (cases data) (auto simp: get_recent_candles_2_def ebind_def)
  show ?thesis
    using assms
    by (auto simp: get_recent_candles_2_def sol_selected_rows_def ebind_def k p d dd loop_key_next
        split: sum.splits if_splits)
qed

lemma exported_is_second:
  "exec_module kraken_module_body ''get_recent_candles'' = Some Def_get_recent_candles_2"
  by (simp add: exec_module_def kraken_module_body_def)

lemma exported_eq: "kraken_get_recent_candles Y K tok n i = get_recent_candles_2 Y K tok n i"
  by (simp add: kraken_get_recent_candles_def exported_is_second)

lemma second_value_error:
  assumes "get_recent_candles_2 Y K tok n i = Inl (ValueError m)"
  shows "m = ''Only Solana is supported. Use SOL, SOLUSD or SOLUSDT.''"
proof (cases "kraken_pair tok")
  case (Inl e)
  then have "e = ValueError ''Only Solana is supported. Use SOL, SOLUSD or SOLUSDT.''"
    by (auto simp: kraken_pair_def Let_def split: option.splits)
  with Inl assms show ?thesis
    by (auto simp: get_recent_candles_2_def ebind_def split: if_splits)
next
  case (Inr pair)
  show ?thesis
  proof (cases "request_json K pair i")
    case (Inl e)
    with Inr assms show ?thesis
      by (auto simp: get_recent_candles_2_def ebind_def split: if_splits)
  next
    case d: (Inr data)
    show ?thesis
    proof (cases data)
      case (JDict dd)
      with Inr d assms show ?thesis
        by (auto simp: get_recent_candles_2_def ebind_def dict_get_def dict_keys_def fallback_key_def
            slice_last_def split: if_splits sum.splits json.splits option.splits list.splits)
    qed (use Inr d assms in \<open>auto simp: get_recent_candles_2_def ebind_def split: if_splits\<close>)
  qed
qed

lemma first_interval_check:
  "get_recent_candles_1 Y K tok 1 7 =
     Inl (ValueError ''Unsupported interval. Choose one of the Kraken-supported minutes.'')"
  by (simp add: get_recent_candles_1_def ALLOWED_INTERVALS_def)

lemma sample_kraken_7: "kraken_get_recent_candles decimal_python sample_api ''SOLUSD'' 1 7 = Inr [sample_candle]"
  by code_simp

lemma sample_kraken_btc:
  "kraken_get_recent_candles decimal_python sample_api ''BTC'' 1 7 =
     Inl (ValueError ''Only Solana is supported. Use SOL, SOLUSD or SOLUSDT.'')"
  by code_simp

lemma sample_selected: "sol_selected_rows sample_api ''SOLUSD'' 1 1440 = Inr [sample_row]"
  by code_simp

lemma sample_parses: "sol_candle decimal_python sample_row = Inr sample_candle"
  by code_simp

section \<open>Normalisation\<close>




text \<open>
  C3. The claim asks that naive timestamps be read as UTC and aware ones converted to
  UTC, so that a naive and an explicit-UTC string of the same instant normalise to the
  same value. \<open>ensure_time_and_sort\<close> calls \<open>pd.to_datetime\<close> without \<open>utc=True\<close>:
  on two candles that give the same instant, one naive and one with \<open>Z\<close>, it raises
  instead.
\<close>

theorem ensure_time_and_sort_mixed_zones:
  "snd (ensure_time_and_sort pandas_stable (DataFrame mixed_zone_candles)) =
     Inl (ValueError ''to_datetime: mixed time zones'')"
  by code_simp

section \<open>The caller's frame\<close>

text \<open>
  C8 (as amended). Whenever normalisation returns, it returns a new frame and leaves
  the caller's frame with its rows in their order and its open, high, low, close and
  volume values unchanged, but the time column of the caller's frame has been
  overwritten in place with the parsed timestamps.
\<close>

theorem ensure_time_and_sort_caller_frame:
  assumes "snd (ensure_time_and_sort P df) = Inr out"
  shows "length (fst (ensure_time_and_sort P df)) = length df \<and>
         map ohlcv (fst (ensure_time_and_sort P df)) = map ohlcv df \<and>
         (\<exists>ts. to_datetime P (map timeOpen df) = Inr ts \<and>
            map timeOpen (fst (ensure_time_and_sort P df)) = map Stamp ts)"
proof -
  from assms obtain ts where ts: "to_datetime P (map timeOpen df) = Inr ts"
    and f: "fst (ensure_time_and_sort P df) = map (\<lambda>(r, t). r\<lparr>timeOpen := Stamp t\<rparr>) (zip df ts)"
    by (rule ensure_time_and_sort_Inr)
  have len: "length ts = length df" using to_datetime_Inr(1) [OF ts] by simp
  have a: "map ohlcv (map (\<lambda>(r, t). r\<lparr>timeOpen := Stamp t\<rparr>) (zip df ts)) = map ohlcv df"
    using len by (intro nth_equalityI) (simp_all add: ohlcv_def)
  have b: "map timeOpen (map (\<lambda>(r, t). r\<lparr>timeOpen := Stamp t\<rparr>) (zip df ts)) = map Stamp ts"
    using len by (intro nth_equalityI) simp_all
  show ?thesis using ts len a b by (simp add: f)
qed

text \<open>The theorem at three candles given out of order.\<close>

theorem ensure_time_and_sort_caller_frame_witness:
  "\<exists>out ts. snd (ensure_time_and_sort pandas_stable (DataFrame unsorted_candles)) = Inr out \<and>
      length (fst (ensure_time_and_sort pandas_stable (DataFrame unsorted_candles))) = 3 \<and>
      map ohlcv (fst (ensure_time_and_sort pandas_stable (DataFrame unsorted_candles))) =
        map ohlcv (DataFrame unsorted_candles) \<and>
      map timeOpen (fst (ensure_time_and_sort pandas_stable (DataFrame unsorted_candles))) =
        map Stamp ts"
proof -
  from unsorted_candles_run obtain out
    where e: "snd (ensure_time_and_sort pandas_stable (DataFrame unsorted_candles)) = Inr out" ..
  have l: "length (DataFrame unsorted_candles) = 3" by (simp add: DataFrame_def unsorted_candles_def)
  show ?thesis
    using ensure_time_and_sort_caller_frame [OF e] e l by auto
qed

text \<open>
  C8 as stated ("leaves the caller's input object unchanged") fails: after the call
  the caller's time column holds timestamps where it held strings.
\<close>

theorem ensure_time_and_sort_mutates_counterexample:
  "fst (ensure_time_and_sort pandas_stable (DataFrame unsorted_candles)) \<noteq> DataFrame unsorted_candles"
  by code_simp

section \<open>Minimum history\<close>

text \<open>
  C1 (as amended). For a series of \<open>n \<ge> 1\<close> well-formed candles (every timestamp
  readable, one time zone, volume present), feature building followed by dropping the
  incomplete rows succeeds with exactly \<open>n - 3\<close> usable rows: 17 rows for 20 candles,
  18 rows for 21. No usable row is left only when \<open>n \<le> 3\<close>: the moving averages
  are taken with \<open>min_periods=1\<close>, so only the three lags leave rows incomplete.
\<close>

theorem prepare_features_usable_rows:
  assumes "argsort_spec (argsort P)"
    and "df \<noteq> []"
    and "\<forall>r \<in> set df. map_option utcoffset (cell_timestamp P (timeOpen r)) = Some z"
    and "\<forall>r \<in> set df. volume r \<noteq> None"
  shows "\<exists>X. prepare_features P df = Inr X \<and> length X = length df - 3 \<and>
           (X = [] \<longleftrightarrow> length df \<le> 3)"
proof -
  from prepare_features_rows [OF assms] obtain X
    where "prepare_features P df = Inr X" "length X = length df - 3" by blast
  moreover from this have "X = [] \<longleftrightarrow> length df \<le> 3" by (cases X) auto
  ultimately show ?thesis by blast
qed

text \<open>The theorem at the normalised series of 21 daily candles.\<close>

theorem prepare_features_usable_rows_witness:
  "argsort_spec (argsort pandas_stable) \<and>
   snd (ensure_time_and_sort pandas_stable (DataFrame (daily_candles 21))) = Inr (daily_series 21) \<and>
   (\<exists>X. prepare_features pandas_stable (daily_series 21) = Inr X \<and> length X = 18 \<and> X \<noteq> [])"
proof -
  have n: "snd (ensure_time_and_sort pandas_stable (DataFrame (daily_candles 21))) = Inr (daily_series 21)"
    by code_simp
  have d: "daily_series 21 \<noteq> []" using daily_series_ok(1) [of 20] by simp
  from prepare_features_usable_rows [OF pandas_stable_spec d daily_series_parses daily_series_ok(3)]
  show ?thesis using n pandas_stable_spec by (auto simp: daily_series_ok(2))
qed

text \<open>
  C1 as stated fails: 20 candles leave 17 usable rows, not none, and 21 candles leave
  18, not one.
\<close>

theorem prepare_features_minimum_history_counterexample:
  "map_sum id length (prepare_features pandas_stable (daily_series 20)) = Inr 17 \<and>
   map_sum id length (prepare_features pandas_stable (daily_series 21)) = Inr 18"
proof -
  have d: "daily_series 20 \<noteq> []" "daily_series 21 \<noteq> []"
    using daily_series_ok(1) [of 19] daily_series_ok(1) [of 20] by simp_all
  from prepare_features_rows [OF pandas_stable_spec d(1) daily_series_parses daily_series_ok(3)]
    prepare_features_rows [OF pandas_stable_spec d(2) daily_series_parses daily_series_ok(3)]
  show ?thesis by (auto simp: daily_series_ok(2))
qed

section \<open>Window resolution\<close>

text \<open>
  C4. For every normalised series (a frame that \<open>ensure_time_and_sort\<close> returned) and
  every anchor, the cut to the anchor of \<open>predict_sol_at\<close> fails with
  \<open>NoDataBeforeAnchorError\<close> when no candle is at or before the anchor, fails with
  \<open>InsufficientHistoryError\<close> when the selected window has fewer than 21 rows, and
  otherwise returns the window; the window is the maximal prefix of the series whose
  timestamps are at or before the anchor: it is a prefix, all its timestamps are at or
  before the anchor, and every prefix with that property is a prefix of it.
\<close>

theorem cut_to_anchor_window:
  assumes "argsort_spec (argsort P)"
    and "snd (ensure_time_and_sort P df) = Inr series"
  shows "(let window = takeWhile (\<lambda>r. stamp_key (timeOpen r) \<le> anchor) series in
            cut_to_anchor P series anchor =
              (if \<forall>r \<in> set series. anchor < stamp_key (timeOpen r) then Inl NoDataBeforeAnchorError
               else if length window < 21 then Inl InsufficientHistoryError
               else Inr window) \<and>
            prefix window series \<and>
            (\<forall>r \<in> set window. stamp_key (timeOpen r) \<le> anchor) \<and>
            (\<forall>p. prefix p series \<and> (\<forall>r \<in> set p. stamp_key (timeOpen r) \<le> anchor)
                \<longrightarrow> prefix p window))"
proof -
  let ?Q = "\<lambda>r. stamp_key (timeOpen r) \<le> anchor"
  from ensure_time_and_sort_stamps [OF assms] obtain z where
    st: "\<forall>r \<in> set series. \<exists>t. timeOpen r = Stamp t \<and> valid_timestamp t \<and> utcoffset t = z"
    by blast
  have "sorted (map (stamp_key \<circ> timeOpen) series)"
    by (rule ensure_time_and_sort_props(2) [OF assms])
  then have f: "filter ?Q series = takeWhile ?Q series"
    using filter_sorted_takeWhile [of "stamp_key \<circ> timeOpen" series anchor] by simp
  have e: "takeWhile ?Q series = [] \<longleftrightarrow> (\<forall>r \<in> set series. anchor < stamp_key (timeOpen r))"
    unfolding f [symmetric] by (auto simp: filter_empty_conv)
  have c: "cut_to_anchor P series anchor =
              (if \<forall>r \<in> set series. anchor < stamp_key (timeOpen r) then Inl NoDataBeforeAnchorError
               else if length (takeWhile ?Q series) < 21 then Inl InsufficientHistoryError
               else Inr (takeWhile ?Q series))"
    unfolding cut_to_anchor_filter [OF st] Let_def f e by (rule refl)
  have m: "\<forall>p. prefix p series \<and> (\<forall>r \<in> set p. ?Q r) \<longrightarrow> prefix p (takeWhile ?Q series)"
    using takeWhile_maximal [of _ series ?Q] by blast
  have s: "\<forall>r \<in> set (takeWhile ?Q series). ?Q r" by (auto dest: set_takeWhileD)
  show ?thesis unfolding Let_def using c m s takeWhile_is_prefix [of ?Q series] by blast
qed

text \<open>
  The theorem at 30 daily candles: the anchor at day 25 gives the first 25 candles, the
  anchor at day 15 leaves too little history, an anchor before day 1 leaves no data.
\<close>

theorem cut_to_anchor_window_witness:
  "argsort_spec (argsort pandas_stable) \<and>
   snd (ensure_time_and_sort pandas_stable (DataFrame (daily_candles 30))) = Inr (daily_series 30) \<and>
   cut_to_anchor pandas_stable (daily_series 30) (day_2025_01 25) = Inr (daily_series 25) \<and>
   cut_to_anchor pandas_stable (daily_series 30) (day_2025_01 15) = Inl InsufficientHistoryError \<and>
   cut_to_anchor pandas_stable (daily_series 30) (day_2025_01 0) = Inl NoDataBeforeAnchorError"
proof -
  note w = cut_to_anchor_window [OF pandas_stable_spec daily_candles_30_run, unfolded Let_def]
  have n: "\<not> (\<forall>r \<in> set (daily_series 30). day_2025_01 25 < stamp_key (timeOpen r))"
    "\<not> (\<forall>r \<in> set (daily_series 30). day_2025_01 15 < stamp_key (timeOpen r))"
    by code_simp+
  have a: "\<forall>r \<in> set (daily_series 30). day_2025_01 0 < stamp_key (timeOpen r)"
    using daily_series_30_windows(3) by (simp add: list_all_iff)
  have "cut_to_anchor pandas_stable (daily_series 30) (day_2025_01 25) = Inr (daily_series 25)"
    using w [of "day_2025_01 25"] n(1) by (simp add: daily_series_30_windows daily_series_ok(2))
  moreover have "cut_to_anchor pandas_stable (daily_series 30) (day_2025_01 15) = Inl InsufficientHistoryError"
    using w [of "day_2025_01 15"] n(2) by (simp add: daily_series_30_windows daily_series_ok(2))
  moreover have "cut_to_anchor pandas_stable (daily_series 30) (day_2025_01 0) = Inl NoDataBeforeAnchorError"
    using w [of "day_2025_01 0"] a by simp
  ultimately show ?thesis using pandas_stable_spec daily_candles_30_run by simp
qed

section \<open>End to end\<close>

text \<open>
  C7. For a request of at least 21 candles (in particular 25 daily candles with
  increasing highs and constant volume) whose timestamps are readable in one time zone
  and whose volumes are present, with mode \<open>delta\<close> and a stub model that returns
  0.5: the prediction succeeds, \<open>last_known_high\<close> is the high of the last candle of
  the normalised series, the predicted high is \<open>last_known_high + 0.5\<close>, and the
  feature row used lists exactly the 15 named fields in the published order, none of
  them missing. On every path, the windowed one of \<open>predict_sol_at\<close> included, a
  response carries as \<open>last_known_high\<close> the high of the last candle of the series
  the prediction ran on.
\<close>

theorem predict_delta_stub:
  assumes "argsort_spec (argsort P)"
    and "21 \<le> length candles"
    and "\<forall>c \<in> set candles. map_option utcoffset (cell_timestamp P (Str (timeOpen c))) = Some z"
    and "\<forall>c \<in> set candles. volume c \<noteq> None"
  shows "(\<exists>df resp. snd (ensure_time_and_sort P (DataFrame candles)) = Inr df \<and>
           predict P (\<lambda>x. Inr (Finite (1/2))) default_mode candles (Some ''delta'') = Inr resp \<and>
           last_known_high resp = Some (Finite (high (last df))) \<and>
           predicted_high_next_day resp = Finite (high (last df) + 1/2) \<and>
           target_mode resp = ''delta'' \<and>
           features_used resp = FINAL_FEATURES \<and>
           map fst (feature_vector_tail resp) =
             [''close'', ''open'', ''low'', ''close_ema3'', ''low_ema3'', ''open_sma3'',
              ''open_sma7'', ''high_lag1'', ''high_lag2'', ''low_lag1'', ''low_lag2'',
              ''close_lag3'', ''volume'', ''volume_sma21'', ''month''] \<and>
           length (feature_vector_tail resp) = 15 \<and>
           list_all (\<lambda>(name, v). v \<noteq> None) (feature_vector_tail resp)) \<and>
         (\<forall>series r. predict_on_frame P m mode series = Inr r \<longrightarrow>
            last_known_high r = Some (Finite (high (last series))))"
  using predict_delta_stub_run [OF assms, of default_mode] predict_on_frame_last_high [of P m mode]
  by blast

text \<open>
  The theorem at 25 daily candles with highs 105, 106, ..., 129 and volume 1000: the
  last known high is 129 and the predicted high 129.5.
\<close>

theorem predict_delta_stub_witness:
  "argsort_spec (argsort pandas_stable) \<and>
   21 \<le> length (daily_candles 25) \<and>
   (\<exists>resp. predict pandas_stable (\<lambda>x. Inr (Finite (1/2))) ''level'' (daily_candles 25) (Some ''delta'')
              = Inr resp \<and>
      last_known_high resp = Some (Finite 129) \<and>
      predicted_high_next_day resp = Finite (129 + 1/2) \<and>
      map fst (feature_vector_tail resp) = FINAL_FEATURES \<and>
      list_all (\<lambda>(name, v). v \<noteq> None) (feature_vector_tail resp))"
proof -
  have "\<exists>resp. predict pandas_stable (\<lambda>x. Inr (Finite (1/2))) ''level'' (daily_candles 25) (Some ''delta'')
              = Inr resp \<and>
      last_known_high resp = Some (Finite 129) \<and>
      predicted_high_next_day resp = Finite (129 + 1/2) \<and>
      map fst (feature_vector_tail resp) = FINAL_FEATURES \<and>
      list_all (\<lambda>(name, v). v \<noteq> None) (feature_vector_tail resp)"
    using predict_delta_stub [OF pandas_stable_spec daily_candles_25(1) daily_candles_25_parse
      daily_candles_25(2), where default_mode = "''level''", THEN conjunct1]
  proof (elim exE conjE)
    fix df resp
    assume df: "snd (ensure_time_and_sort pandas_stable (DataFrame (daily_candles 25))) = Inr df"
      and p: "predict pandas_stable (\<lambda>x. Inr (Finite (1/2))) ''level'' (daily_candles 25) (Some ''delta'')
                = Inr resp"
      and l: "last_known_high resp = Some (Finite (high (last df)))"
      and h: "predicted_high_next_day resp = Finite (high (last df) + 1/2)"
      and u: "features_used resp = FINAL_FEATURES"
      and m: "map fst (feature_vector_tail resp) =
             [''close'', ''open'', ''low'', ''close_ema3'', ''low_ema3'', ''open_sma3'',
              ''open_sma7'', ''high_lag1'', ''high_lag2'', ''low_lag1'', ''low_lag2'',
              ''close_lag3'', ''volume'', ''volume_sma21'', ''month'']"
      and a: "list_all (\<lambda>(name, v). v \<noteq> None) (feature_vector_tail resp)"
    from df have "df = daily_series 25" using daily_candles_25_run by simp
    with p l h m a daily_series_25_last show ?thesis
      by (intro exI [of _ resp]) (simp add: FINAL_FEATURES_def)
  qed
  with pandas_stable_spec daily_candles_25(1) show ?thesis by blast
qed

section \<open>The fetchers\<close>

text \<open>
  C9. In \<open>fetch/kraken_ohlc_solusd.py\<close> the name \<open>get_recent_candles\<close> is bound
  twice and the binding the module is left with is the second definition, which does
  not check the interval: for every interpreter, exchange, token, \<open>n\<close> and interval
  the exported function is the second definition and never raises the "Unsupported
  interval" \<open>ValueError\<close> (the only \<open>ValueError\<close> it raises is that of an unknown
  token), while the first definition raises it, for instance at interval 7.
\<close>

theorem kraken_interval_check_shadowed:
  "exec_module kraken_module_body ''get_recent_candles'' = Some Def_get_recent_candles_2 \<and>
   kraken_get_recent_candles Y K tok n interval = get_recent_candles_2 Y K tok n interval \<and>
   kraken_get_recent_candles Y K tok n interval \<noteq>
     Inl (ValueError ''Unsupported interval. Choose one of the Kraken-supported minutes.'') \<and>
   (\<forall>m. kraken_get_recent_candles Y K tok n interval = Inl (ValueError m) \<longrightarrow>
      m = ''Only Solana is supported. Use SOL, SOLUSD or SOLUSDT.'') \<and>
   get_recent_candles_1 Y K tok 1 7 =
     Inl (ValueError ''Unsupported interval. Choose one of the Kraken-supported minutes.'')"
proof -
  have v: "\<forall>m. kraken_get_recent_candles Y K tok n interval = Inl (ValueError m) \<longrightarrow>
      m = ''Only Solana is supported. Use SOL, SOLUSD or SOLUSDT.''"
    unfolding exported_eq using second_value_error by blast
  then have "kraken_get_recent_candles Y K tok n interval \<noteq>
     Inl (ValueError ''Unsupported interval. Choose one of the Kraken-supported minutes.'')"
    by auto
  with v show ?thesis using exported_is_second exported_eq first_interval_check by blast
qed

text \<open>
  The theorem at interval 7, which Kraken does not support: the exported function
  returns the candle of the sample payload, or the token's error, where the first
  definition raises.
\<close>

theorem kraken_interval_check_shadowed_witness:
  "kraken_get_recent_candles decimal_python sample_api ''SOLUSD'' 1 7 = Inr [sample_candle] \<and>
   kraken_get_recent_candles decimal_python sample_api ''BTC'' 1 7 =
     Inl (ValueError ''Only Solana is supported. Use SOL, SOLUSD or SOLUSDT.'') \<and>
   kraken_get_recent_candles decimal_python sample_api ''BTC'' 1 7 \<noteq>
     Inl (ValueError ''Unsupported interval. Choose one of the Kraken-supported minutes.'') \<and>
   get_recent_candles_1 decimal_python sample_api ''SOLUSD'' 1 7 =
     Inl (ValueError ''Unsupported interval. Choose one of the Kraken-supported minutes.'')"
proof -
  from kraken_interval_check_shadowed [of decimal_python sample_api "''BTC''" 1 7]
  have a: "kraken_get_recent_candles decimal_python sample_api ''BTC'' 1 7 \<noteq>
     Inl (ValueError ''Unsupported interval. Choose one of the Kraken-supported minutes.'')"
    by (elim conjE)
  from kraken_interval_check_shadowed [of decimal_python sample_api "''SOLUSD''" 1 7]
  have b: "get_recent_candles_1 decimal_python sample_api ''SOLUSD'' 1 7 =
     Inl (ValueError ''Unsupported interval. Choose one of the Kraken-supported minutes.'')"
    by (elim conjE)
  from a b sample_kraken_7 sample_kraken_btc show ?thesis by (intro conjI)
qed

text \<open>
  C10 (as amended). For \<open>n > 0\<close> and every payload: when each of the rows that
  \<open>sol_fetch\<close> selects (the last \<open>n\<close> rows of the payload) converts, the exported
  \<open>get_recent_candles\<close> of \<open>kraken_ohlc_solusd\<close> and that of \<open>sol_fetch\<close> return
  the same list, the converted rows sorted by \<open>timeOpen\<close>; whenever \<open>sol_fetch\<close>
  returns a list, the other returns the same list; they return different results only
  when a selected row is malformed, which the former skips and the latter raises; and
  when the former raises, so does the latter.
\<close>

theorem fetchers_agree:
  assumes "0 < n"
  shows "(\<forall>sel. sol_selected_rows K tok n i = Inr sel \<and>
                (\<forall>row \<in> set sel. \<exists>c. sol_candle Y row = Inr c) \<longrightarrow>
            kraken_get_recent_candles Y K tok n i = sol_get_recent_candles Y K tok n i \<and>
            sol_get_recent_candles Y K tok n i =
              Inr (sort_key timeOpen (map (projr \<circ> sol_candle Y) sel))) \<and>
         (\<forall>xs. sol_get_recent_candles Y K tok n i = Inr xs \<longrightarrow>
            kraken_get_recent_candles Y K tok n i = Inr xs) \<and>
         (\<forall>xs. kraken_get_recent_candles Y K tok n i = Inr xs \<and>
                sol_get_recent_candles Y K tok n i \<noteq> Inr xs \<longrightarrow>
            (\<exists>sel row e. sol_selected_rows K tok n i = Inr sel \<and> row \<in> set sel \<and>
               sol_candle Y row = Inl e \<and> sol_get_recent_candles Y K tok n i = Inl e)) \<and>
         (\<forall>e. kraken_get_recent_candles Y K tok n i = Inl e \<longrightarrow>
            (\<exists>e'. sol_get_recent_candles Y K tok n i = Inl e')) \<and>
         (\<forall>rows. slice_last (JList rows) n = Inr (drop (length rows - nat n) rows))"
proof -
  have slice: "\<forall>rows. slice_last (JList rows) n = Inr (drop (length rows - nat n) rows)"
    using assms by (simp add: slice_last_def last_items_def)
  have sol_Inr: "kraken_get_recent_candles Y K tok n i = Inr xs"
    if "sol_get_recent_candles Y K tok n i = Inr xs" for xs
  proof -
    from that obtain sel out where s: "sol_selected_rows K tok n i = Inr sel"
      and l: "sol_loop Y sel = Inr out" and x: "xs = sort_key timeOpen out"
      by (auto simp: sol_get_recent_candles_def ebind_def split: sum.splits)
    show ?thesis
      unfolding exported_eq kraken_from_sol [OF assms s] sol_loop_Inr [OF l] x by (rule refl)
  qed
  have all_parse: "kraken_get_recent_candles Y K tok n i = sol_get_recent_candles Y K tok n i \<and>
            sol_get_recent_candles Y K tok n i =
              Inr (sort_key timeOpen (map (projr \<circ> sol_candle Y) sel))"
    if s: "sol_selected_rows K tok n i = Inr sel"
      and a: "\<forall>row \<in> set sel. \<exists>c. sol_candle Y row = Inr c" for sel
  proof -
    have "sol_get_recent_candles Y K tok n i =
              Inr (sort_key timeOpen (map (projr \<circ> sol_candle Y) sel))"
      by (simp add: sol_get_recent_candles_def ebind_def s sol_loop_all [OF a])
    then show ?thesis using sol_Inr by simp
  qed
  have diverge: "\<exists>sel row e. sol_selected_rows K tok n i = Inr sel \<and> row \<in> set sel \<and>
               sol_candle Y row = Inl e \<and> sol_get_recent_candles Y K tok n i = Inl e"
    if k: "kraken_get_recent_candles Y K tok n i = Inr xs"
      and d: "sol_get_recent_candles Y K tok n i \<noteq> Inr xs" for xs
  proof -
    from sol_from_kraken [OF assms k [unfolded exported_eq]] obtain sel
      where s: "sol_selected_rows K tok n i = Inr sel"
        and x: "xs = sort_key timeOpen (kraken_loop Y sel)" by blast
    show ?thesis
    proof (cases "sol_loop Y sel")
      case (Inl e)
      then have "sol_get_recent_candles Y K tok n i = Inl e"
        by (simp add: sol_get_recent_candles_def ebind_def s)
      with sol_loop_Inl [OF Inl] s show ?thesis by blast
    next
      case (Inr out)
      then have "sol_get_recent_candles Y K tok n i = Inr xs"
        by (simp add: sol_get_recent_candles_def ebind_def s x sol_loop_Inr [OF Inr])
      with d show ?thesis by simp
    qed
  qed
  have fail: "\<exists>e'. sol_get_recent_candles Y K tok n i = Inl e'"
    if "kraken_get_recent_candles Y K tok n i = Inl e" for e
  proof (cases "sol_get_recent_candles Y K tok n i")
    case (Inl e')
    then show ?thesis by blast
  next
    case (Inr xs)
    with sol_Inr that show ?thesis by simp
  qed
  show ?thesis using sol_Inr all_parse diverge fail slice by blast
qed

text \<open>The theorem at the sample payload with \<open>n = 1\<close>.\<close>

theorem fetchers_agree_witness:
  "(0::int) < 1 \<and>
   sol_selected_rows sample_api ''SOLUSD'' 1 1440 = Inr [sample_row] \<and>
   sol_candle decimal_python sample_row = Inr sample_candle \<and>
   kraken_get_recent_candles decimal_python sample_api ''SOLUSD'' 1 1440 =
     sol_get_recent_candles decimal_python sample_api ''SOLUSD'' 1 1440 \<and>
   sol_get_recent_candles decimal_python sample_api ''SOLUSD'' 1 1440 = Inr [sample_candle]"
proof -
  have p: "\<forall>row \<in> set [sample_row]. \<exists>c. sol_candle decimal_python row = Inr c"
    using sample_parses by simp
  have "(0::int) < 1" by simp
  from fetchers_agree [OF this, of sample_api "''SOLUSD''" 1440 decimal_python] sample_selected p
  have "kraken_get_recent_candles decimal_python sample_api ''SOLUSD'' 1 1440 =
     sol_get_recent_candles decimal_python sample_api ''SOLUSD'' 1 1440"
    and "sol_get_recent_candles decimal_python sample_api ''SOLUSD'' 1 1440 =
      Inr (sort_key timeOpen (map (projr \<circ> sol_candle decimal_python) [sample_row]))"
    by blast+
  then show ?thesis using sample_selected sample_parses by simp
qed

text \<open>
  C10 as stated (for every \<open>n\<close>) fails at \<open>n = 0\<close>: the former returns the empty
  list by its guard \<open>if n <= 0\<close>; the latter has no guard and \<open>rows[-0:]\<close> is every
  row, here one well-formed row.
\<close>

theorem fetchers_disagree_counterexample:
  "kraken_get_recent_candles decimal_python sample_api ''SOLUSD'' 0 1440 = Inr [] \<and>
   sol_get_recent_candles decimal_python sample_api ''SOLUSD'' 0 1440 = Inr [sample_candle]"
proof -
  have "kraken_get_recent_candles decimal_python sample_api ''SOLUSD'' 0 1440 = Inr []"
    by (simp add: exported_eq get_recent_candles_2_def)
  moreover have "sol_selected_rows sample_api ''SOLUSD'' 0 1440 = Inr [sample_row]"
    by code_simp
  then have "sol_get_recent_candles decimal_python sample_api ''SOLUSD'' 0 1440 = Inr [sample_candle]"
    by (simp add: sol_get_recent_candles_def ebind_def sample_parses)
  ultimately show ?thesis by simp
qed

section \<open>Decoding: equations and failures\<close>

text \<open>
  C5 (as amended). For every raw model output: mode \<open>level\<close> returns the raw output
  unchanged, whatever the last known high (absent included); for every last known
  high that is present and finite, mode \<open>delta\<close> returns last high + raw output and
  mode \<open>logdiff\<close> returns exp(raw output) * last high.
\<close>

theorem invert_prediction_equations:
  "invert_prediction raw lh ''level'' = Inr raw \<and>
   (isfinite h \<longrightarrow>
      invert_prediction raw (Some h) ''delta'' = Inr (fadd h raw) \<and>
      invert_prediction raw (Some h) ''logdiff'' = Inr (fmul (fexp raw) h))"
  by (simp add: invert_prediction_def)

text \<open>The theorem at raw output 0.5 and last known high 100.\<close>

theorem invert_prediction_equations_witness:
  "isfinite (Finite 100) \<and>
   invert_prediction (Finite (1/2)) None ''level'' = Inr (Finite (1/2)) \<and>
   invert_prediction (Finite (1/2)) (Some (Finite 100)) ''delta'' = Inr (Finite (100 + 1/2)) \<and>
   invert_prediction (Finite (1/2)) (Some (Finite 100)) ''logdiff'' = Inr (Finite (exp (1/2) * 100))"
  using invert_prediction_equations [of "Finite (1/2)" None "Finite 100"]
  by simp

text \<open>
  C5 as stated ("for every last known high") fails at a last known high that is not
  finite: with \<open>+inf\<close> the claim's equation gives \<open>+inf\<close>, the source raises.
\<close>

theorem invert_prediction_nonfinite_counterexample:
  "invert_prediction (Finite (1/2)) (Some PosInf) ''delta'' \<noteq> Inr (fadd PosInf (Finite (1/2)))"
  by (simp add: invert_prediction_def)

text \<open>
  C6 (as amended). Mode \<open>level\<close> succeeds whatever the last known high, absent
  included. With the last known high absent or not finite, every other mode fails with
  \<open>InversionError\<close>: \<open>delta\<close>, \<open>logdiff\<close>, and an unknown mode too, since the
  check of the last high comes before the dispatch on the mode. An unknown mode fails
  with \<open>UnsupportedModeError\<close> when the last known high is present and finite.
\<close>

theorem invert_prediction_failures:
  "invert_prediction raw lh ''level'' = Inr raw \<and>
   ((lh = None \<or> (\<exists>h. lh = Some h \<and> \<not> isfinite h)) \<and> mode \<noteq> ''level'' \<longrightarrow>
      invert_prediction raw lh mode = Inl InversionError) \<and>
   (isfinite h \<and> mode \<notin> {''level'', ''delta'', ''logdiff''} \<longrightarrow>
      invert_prediction raw (Some h) mode = Inl (UnsupportedModeError mode))"
  by (auto simp: invert_prediction_def)

text \<open>
  The theorem at raw output 0.5: an absent and a \<open>NaN\<close> last high, and the unknown
  mode \<open>weekly\<close> with last known high 100.
\<close>

theorem invert_prediction_failures_witness:
  "invert_prediction (Finite (1/2)) None ''level'' = Inr (Finite (1/2)) \<and>
   invert_prediction (Finite (1/2)) None ''delta'' = Inl InversionError \<and>
   invert_prediction (Finite (1/2)) (Some NaN) ''logdiff'' = Inl InversionError \<and>
   invert_prediction (Finite (1/2)) (Some (Finite 100)) ''weekly'' =
     Inl (HTTPException 400 ''Unknown target mode: weekly'')"
  using invert_prediction_failures [of "Finite (1/2)" None "''delta''" "Finite 100"]
    invert_prediction_failures [of "Finite (1/2)" "Some NaN" "''logdiff''" "Finite 100"]
    invert_prediction_failures [of "Finite (1/2)" None "''weekly''" "Finite 100"]
  by (simp add: UnsupportedModeError_def)

text \<open>
  C6 as stated ("an unknown mode fails with UnsupportedModeError") fails when the last
  known high is absent: the source raises the error of the last-high check.
\<close>

theorem invert_prediction_unknown_mode_counterexample:
  "invert_prediction (Finite (1/2)) None ''weekly'' \<noteq> Inl (UnsupportedModeError ''weekly'')"
  by (simp add: invert_prediction_def InversionError_def UnsupportedModeError_def)

end
